theory Spec2Isabelle
  imports Main "HOL-Library.Sublist"
begin

section \<open>Python values used by the environment manager\<close>

text \<open>
  The development embeds the class \<^verbatim>\<open>EnvironmentManager\<close> of
  \<^verbatim>\<open>src/cema/environment_manager.py\<close> and the class \<^verbatim>\<open>Environment\<close> of
  \<^verbatim>\<open>src/cema/environment.py\<close>. A Python \<^verbatim>\<open>str\<close> is a \<^typ>\<open>string\<close>; a character is a
  code point below 256. Methods whose Python name starts with an underscore lose the
  underscore (\<^verbatim>\<open>_formatDependencies\<close> is \<open>formatDependencies\<close>); the one clash,
  \<^verbatim>\<open>_importModule\<close> against \<^verbatim>\<open>importModule\<close>, is resolved as \<open>importModule0\<close>.
  Calls to the logger are left out: they change no value and no state the methods read.
  \<^verbatim>\<open>self\<close> is passed where a method reads an attribute through it.
\<close>

subsection \<open>Strings\<close>

definition dq :: char where
  "dq = CHR 0x22"

definition bslash :: char where
  "bslash = CHR 0x5C"

definition newline :: char where
  "newline = CHR 0x0A"

text \<open>\<^verbatim>\<open>sub in s\<close> on two strings: \<open>sub\<close> occurs in \<open>s\<close> as a contiguous block.\<close>

definition py_in :: "string \<Rightarrow> string \<Rightarrow> bool" where
  "py_in sub s = sublist sub s"

text \<open>\<^verbatim>\<open>sep.join(xs)\<close>.\<close>

fun join :: "string \<Rightarrow> string list \<Rightarrow> string" where
  "join sep [] = []"
| "join sep [x] = x"
| "join sep (x # y # ys) = x @ sep @ join sep (y # ys)"

text \<open>The f-string \<^verbatim>\<open>f'"{d}"'\<close>.\<close>

definition quoted :: "string \<Rightarrow> string" where
  "quoted d = [dq] @ d @ [dq]"

text \<open>\<^verbatim>\<open>s.replace(c, "")\<close> for a one-character \<open>c\<close>.\<close>

definition remove_char :: "char \<Rightarrow> string \<Rightarrow> string" where
  "remove_char c s = filter (\<lambda>x. x \<noteq> c) s"

text \<open>\<^verbatim>\<open>s.split("::")\<close>: left to right, occurrences do not overlap.\<close>

fun split_colons :: "string \<Rightarrow> string \<Rightarrow> string list" where
  "split_colons acc [] = [acc]"
| "split_colons acc [c] = [acc @ [c]]"
| "split_colons acc (c # d # rest) =
     (if c = CHR '':'' \<and> d = CHR '':'' then acc # split_colons [] rest
      else split_colons (acc @ [c]) (d # rest))"

text \<open>\<^verbatim>\<open>s.split(sep)\<close> for a one-character \<open>sep\<close>.\<close>

fun split_char :: "char \<Rightarrow> string \<Rightarrow> string \<Rightarrow> string list" where
  "split_char sep acc [] = [acc]"
| "split_char sep acc (c # rest) =
     (if c = sep then acc # split_char sep [] rest else split_char sep (acc @ [c]) rest)"

definition is_digit :: "char \<Rightarrow> bool" where
  "is_digit c = (c \<in> set ''0123456789'')"

definition is_alpha :: "char \<Rightarrow> bool" where
  "is_alpha c = (c \<in> set ''abcdefghijklmnopqrstuvwxyzABCDEFGHIJKLMNOPQRSTUVWXYZ'')"

text \<open>\<^verbatim>\<open>int(ds)\<close> on a string of decimal digits.\<close>

definition py_int :: "string \<Rightarrow> nat" where
  "py_int ds = foldl (\<lambda>n c. 10 * n + (of_char c - 48)) 0 ds"

text \<open>\<^verbatim>\<open>s.lower()\<close>: the upper-case letters below 256 are A to Z and 0xC0 to 0xDE
  without 0xD7; each is 32 below its lower-case letter.\<close>

definition lower_char :: "char \<Rightarrow> char" where
  "lower_char c =
     (let n = (of_char c :: nat) in
      if (65 \<le> n \<and> n \<le> 90) \<or> (192 \<le> n \<and> n \<le> 222 \<and> n \<noteq> 215) then char_of (n + 32) else c)"

definition py_lower :: "string \<Rightarrow> string" where
  "py_lower s = map lower_char s"

text \<open>\<^verbatim>\<open>s.strip()\<close>: the white space below 256 is 0x09 to 0x0D, 0x1C to 0x20, 0x85 and
  0xA0.\<close>

definition is_space :: "char \<Rightarrow> bool" where
  "is_space c =
     (let n = (of_char c :: nat) in
      (9 \<le> n \<and> n \<le> 13) \<or> (28 \<le> n \<and> n \<le> 32) \<or> n = 133 \<or> n = 160)"

definition py_strip :: "string \<Rightarrow> string" where
  "py_strip s = rev (dropWhile is_space (rev (dropWhile is_space s)))"

text \<open>
  \<^verbatim>\<open>repr(s)\<close>: double quotes when \<open>s\<close> has a single quote and no double quote, single
  quotes otherwise; the backslash and the chosen quote are escaped, tab, newline and
  carriage return have their letters, any other character that is not printable is
  \<^verbatim>\<open>\xhh\<close>. \<^verbatim>\<open>str(xs)\<close> of a list of strings joins the \<open>repr\<close>s in brackets.
\<close>

definition hex_digit :: "nat \<Rightarrow> char" where
  "hex_digit n = ''0123456789abcdef'' ! (n mod 16)"

definition printable :: "char \<Rightarrow> bool" where
  "printable c =
     (let n = (of_char c :: nat) in
      (32 \<le> n \<and> n \<le> 126) \<or> (161 \<le> n \<and> n \<noteq> 173))"

definition repr_char :: "char \<Rightarrow> char \<Rightarrow> string" where
  "repr_char q c =
     (if c = bslash \<or> c = q then [bslash, c]
      else if c = CHR 0x09 then [bslash, CHR ''t'']
      else if c = CHR 0x0A then [bslash, CHR ''n'']
      else if c = CHR 0x0D then [bslash, CHR ''r'']
      else if printable c then [c]
      else [bslash, CHR ''x'', hex_digit (of_char c div 16), hex_digit (of_char c)])"

definition py_repr :: "string \<Rightarrow> string" where
  "py_repr s =
     (let q = (if CHR 0x27 \<in> set s \<and> dq \<notin> set s then dq else CHR 0x27)
      in [q] @ concat (map (repr_char q) s) @ [q])"

definition py_str :: "string list \<Rightarrow> string" where
  "py_str xs = ''['' @ join '', '' (map py_repr xs) @ '']''"

text \<open>\<^verbatim>\<open>s[-150:]\<close>.\<close>

definition last150 :: "string \<Rightarrow> string" where
  "last150 s = drop (length s - 150) s"

subsection \<open>Errors\<close>

text \<open>
  Every \<^verbatim>\<open>raise\<close> is a value. \<open>Exception\<close> carries the message. The exception of
  \<^verbatim>\<open>installDependencies\<close> for a channel qualifier in a pip specifier is a plain
  \<^verbatim>\<open>Exception\<close> too; its message ends with \<^verbatim>\<open>str(dependencies["pip"])\<close>, which
  depends on the key order of the caller's dictionaries, so the model keeps the fixed part
  of the message in \<open>PipChannelException\<close>. \<open>KeyError\<close> is the failed lookup of
  \<^verbatim>\<open>platform.system()\<close> in \<^verbatim>\<open>_platformCondaFormat\<close> and of a name in a dictionary;
  \<open>ValueError\<close> is a failed \<^verbatim>\<open>int(...)\<close>; \<open>ImportError\<close> a failed import;
  \<open>TypeError\<close> an iteration over \<open>None\<close> or over a process object, which only the
  older copy of the manager can meet.
\<close>

datatype error =
    IncompatibilityException string
  | Exception string
  | PipChannelException string
  | KeyError string
  | ValueError string
  | ImportError string
  | TypeError string

subsection \<open>Dependency specifications\<close>

text \<open>
  \<^verbatim>\<open>cema.dependencies\<close> is not among the sources. From the uses in
  \<^verbatim>\<open>_formatDependencies\<close>: an entry of a dependency list is a string or a dictionary with
  the keys \<^verbatim>\<open>name\<close>, \<^verbatim>\<open>platforms\<close> (the string \<^verbatim>\<open>"all"\<close> or a list of platform
  names), \<^verbatim>\<open>optional\<close> and, possibly absent, \<^verbatim>\<open>dependencies\<close>. A
  \<^verbatim>\<open>Dependencies\<close> dictionary has the optional keys \<^verbatim>\<open>conda\<close>, \<^verbatim>\<open>pip\<close> and
  \<^verbatim>\<open>python\<close>.
\<close>

datatype platforms_spec = AllPlatforms | Platforms "string list"

record Dependency =
  dep_name :: string
  dep_platforms :: platforms_spec
  dep_optional :: bool
  dep_dependencies :: "bool option"

datatype entry = Spec string | Structured Dependency

record Dependencies =
  conda :: "entry list option"
  pip :: "entry list option"
  python :: "string option"

text \<open>\<^verbatim>\<open>dependencies.get(package_manager, [])\<close>.\<close>

definition dependencies_get :: "Dependencies \<Rightarrow> string \<Rightarrow> entry list" where
  "dependencies_get deps package_manager =
     (if package_manager = ''conda'' then (case conda deps of None \<Rightarrow> [] | Some l \<Rightarrow> l)
      else if package_manager = ''pip'' then (case pip deps of None \<Rightarrow> [] | Some l \<Rightarrow> l)
      else [])"

section \<open>The process and its surroundings\<close>

text \<open>
  A subprocess as \<^verbatim>\<open>subprocess.Popen\<close> shows it to the manager: the lines of its
  combined output (\<open>None\<close> when \<^verbatim>\<open>process.stdout\<close> is \<open>None\<close>), the status
  \<^verbatim>\<open>process.returncode\<close> once it has ended, and whether \<^verbatim>\<open>process.poll()\<close> finds it
  ended when \<^verbatim>\<open>launch\<close> asks.
\<close>

record process =
  pid :: nat
  stdout :: "string list option"
  returncode :: int
  ended :: bool

text \<open>
  The record a successful \<^verbatim>\<open>launch\<close> registers,
  \<^verbatim>\<open>ClientEnvironment(environment, port, process)\<close>. The class is not among the sources;
  the manager reads and resets its \<^verbatim>\<open>installedDependencies\<close> dictionary, which starts
  empty here.
\<close>

record ClientEnvironment =
  ce_name :: string
  ce_port :: int
  ce_process :: process
  installedDependencies :: "string \<rightharpoonup> string list"

text \<open>
  A module object: its name, the file it was loaded from, and its \<^verbatim>\<open>__dict__\<close>. A
  member that is a function carries its \<^verbatim>\<open>__name__\<close> and the file of the module that
  defines it.
\<close>

datatype member = Function string string | Other

record module =
  mod_name :: string
  mod_file :: string
  mod_dict :: "(string \<times> member) list"

text \<open>
  The state of the running Python process and what it observes outside.
  \<^item> \<open>system\<close>, \<open>machine\<close>, \<open>python_version\<close>, \<open>cwd\<close>, \<open>package_dir\<close>: the results of
    \<^verbatim>\<open>platform.system()\<close>, \<^verbatim>\<open>platform.machine()\<close>, \<^verbatim>\<open>platform.python_version()\<close>,
    \<^verbatim>\<open>Path.cwd().resolve()\<close> and \<^verbatim>\<open>Path(__file__).parent.resolve()\<close>.
  \<^item> \<open>paths\<close>, \<open>dirs\<close>: the paths that exist and those that are directories, as a call
    finds them. What a script does to the disk belongs to the package manager and is not
    modelled.
  \<^item> \<open>distributions\<close>: name and version of each entry of \<^verbatim>\<open>metadata.distributions()\<close>.
  \<^item> \<open>spawn\<close>: the subprocess that starts when a script with these lines runs under this
    environment overlay.
  \<^item> \<open>executed\<close>: the scripts started so far, oldest first; \<open>killed\<close>: the processes
    killed so far.
  \<^item> \<open>environments\<close>: the class attribute \<^verbatim>\<open>EnvironmentManager.environments\<close>. The
    source binds it once, in the class body, and afterwards only mutates the dictionary
    through \<^verbatim>\<open>self.environments[...]\<close>; no method assigns \<^verbatim>\<open>self.environments\<close>. So
    every instance reads and writes this one dictionary.
  \<^item> \<open>modules\<close>: the class attribute \<^verbatim>\<open>Environment.modules\<close>, in the same way one
    dictionary for every environment object.
  \<^item> \<open>sys_path\<close>: \<^verbatim>\<open>sys.path\<close>; \<open>find_module\<close>: what \<^verbatim>\<open>import_module(name)\<close> finds
    under a given \<^verbatim>\<open>sys.path\<close>; \<open>imported\<close>: the names \<^verbatim>\<open>import_module\<close> was called
    with, oldest first.
\<close>

record world =
  system :: string
  machine :: string
  python_version :: string
  cwd :: string
  package_dir :: string
  paths :: "string set"
  dirs :: "string set"
  distributions :: "(string \<times> string) list"
  spawn :: "string list \<Rightarrow> (string \<times> string) list option \<Rightarrow> process"
  executed :: "string list list"
  killed :: "nat list"
  environments :: "string \<rightharpoonup> ClientEnvironment"
  modules :: "string \<rightharpoonup> module"
  sys_path :: "string list"
  find_module :: "string list \<Rightarrow> string \<Rightarrow> module option"
  imported :: "string list"

text \<open>
  The attributes an \<^verbatim>\<open>EnvironmentManager\<close> instance owns: those the source assigns
  through \<^verbatim>\<open>self\<close> (\<^verbatim>\<open>condaPath\<close> and \<^verbatim>\<open>condaBinConfig\<close> in \<^verbatim>\<open>setCondaPath\<close>,
  \<^verbatim>\<open>proxies\<close> in \<^verbatim>\<open>setCondaPath\<close> and \<^verbatim>\<open>setProxies\<close>). \<^verbatim>\<open>condaBin\<close> is a class
  constant.
\<close>

record manager =
  condaPath :: string
  condaBinConfig :: string
  proxies :: "(string \<times> string) list option"

definition condaBin :: string where
  "condaBin = ''micromamba''"

text \<open>
  The attribute lookup \<^verbatim>\<open>self.environments\<close>: the instance has no attribute of that
  name, so the lookup ends at the class attribute, whichever instance \<open>self\<close> is.
\<close>

definition registry :: "manager \<Rightarrow> world \<Rightarrow> (string \<rightharpoonup> ClientEnvironment)" where
  "registry self w = environments w"

section \<open>EnvironmentManager\<close>

subsection \<open>Platform\<close>

definition isWindows :: "world \<Rightarrow> bool" where
  "isWindows w = (system w = ''Windows'')"

definition getPlatformCommonName :: "world \<Rightarrow> string" where
  "getPlatformCommonName w = (if system w = ''Darwin'' then ''mac'' else py_lower (system w))"

text \<open>
  \<^verbatim>\<open>_platformCondaFormat\<close>: the lookup of \<^verbatim>\<open>platform.system()\<close> in the three-entry
  dictionary raises \<^verbatim>\<open>KeyError\<close> for any other system.
\<close>

definition platformCondaFormat :: "world \<Rightarrow> error + string" where
  "platformCondaFormat w =
     (let machine1 = (if machine w = ''x86_64'' \<or> machine w = ''AMD64'' then ''64'' else machine w)
      in case map_of [(''Darwin'', ''osx''), (''Windows'', ''win''), (''Linux'', ''linux'')] (system w) of
           None \<Rightarrow> Inl (KeyError (system w))
         | Some s \<Rightarrow> Inr (s @ ''-'' @ machine1))"

subsection \<open>Scripts\<close>

definition insertCommandErrorChecks :: "world \<Rightarrow> string list \<Rightarrow> string list" where
  \<open>insertCommandErrorChecks w commands =
     (let errorMessage = ''Errors encountered during execution. Exited with status:'';
          windowsChecks = ['''', ''if (! $?) { exit 1 } ''];
          posixChecks =
            ['''',
             ''return_status=$?'',
             ''if [ $return_status -ne 0 ]'',
             ''then'',
             ''    echo "'' @ errorMessage @ '' $return_status"'',
             ''    exit 1'',
             ''fi'',
             ''''];
          checks = (if isWindows w then windowsChecks else posixChecks)
      in concat (map (\<lambda>command. command # checks) commands))\<close>

subsection \<open>Formatting a dependency list\<close>

text \<open>
  The condition of \<^verbatim>\<open>_formatDependencies\<close> on \<^verbatim>\<open>platforms\<close>, disjunct by disjunct:
  \<^verbatim>\<open>currentPlatform in platforms or platforms == "all" or len(platforms) == 0\<close>. On the
  string \<^verbatim>\<open>"all"\<close> the first disjunct is a substring test.
\<close>

definition platform_admitted :: "string \<Rightarrow> platforms_spec \<Rightarrow> bool" where
  "platform_admitted currentPlatform platforms =
     (case platforms of
        AllPlatforms \<Rightarrow> py_in currentPlatform ''all'' \<or> True \<or> length ''all'' = 0
      | Platforms ps \<Rightarrow> currentPlatform \<in> set ps \<or> False \<or> length ps = 0)"

definition platformsString :: "platforms_spec \<Rightarrow> string" where
  "platformsString platforms =
     (case platforms of
        AllPlatforms \<Rightarrow> join '', '' (map (\<lambda>c. [c]) ''all'')
      | Platforms ps \<Rightarrow> join '', '' ps)"

definition incompatibility_message :: "string \<Rightarrow> string \<Rightarrow> platforms_spec \<Rightarrow> string" where
  "incompatibility_message n currentPlatform platforms =
     ''Error: the library '' @ n @ '' is not available on this platform ('' @ currentPlatform
       @ ''). It is only available on the following platforms: '' @ platformsString platforms @ ''.''"

text \<open>
  The loop of \<^verbatim>\<open>_formatDependencies\<close> over the entries, with the two lists it appends to.
  \<^verbatim>\<open>currentPlatform\<close> is computed for every structured entry before the condition is
  evaluated.
\<close>

fun formatLoop ::
  "world \<Rightarrow> bool \<Rightarrow> entry list \<Rightarrow> string list \<Rightarrow> string list
     \<Rightarrow> error + (string list \<times> string list)" where
  "formatLoop w raiseIncompatibilityError [] finalDependencies finalDependenciesNoDeps =
     Inr (finalDependencies, finalDependenciesNoDeps)"
| "formatLoop w raiseIncompatibilityError (Spec s # rest) finalDependencies finalDependenciesNoDeps =
     formatLoop w raiseIncompatibilityError rest (finalDependencies @ [s]) finalDependenciesNoDeps"
| "formatLoop w raiseIncompatibilityError (Structured d # rest) finalDependencies finalDependenciesNoDeps =
     (case platformCondaFormat w of
        Inl e \<Rightarrow> Inl e
      | Inr currentPlatform \<Rightarrow>
          if platform_admitted currentPlatform (dep_platforms d) \<or> \<not> raiseIncompatibilityError
          then (if dep_dependencies d = None \<or> dep_dependencies d = Some True
                then formatLoop w raiseIncompatibilityError rest
                       (finalDependencies @ [dep_name d]) finalDependenciesNoDeps
                else formatLoop w raiseIncompatibilityError rest
                       finalDependencies (finalDependenciesNoDeps @ [dep_name d]))
          else if \<not> dep_optional d
          then Inl (IncompatibilityException
                 (incompatibility_message (dep_name d) currentPlatform (dep_platforms d)))
          else formatLoop w raiseIncompatibilityError rest finalDependencies finalDependenciesNoDeps)"

definition formatDependencies ::
  "world \<Rightarrow> string \<Rightarrow> Dependencies \<Rightarrow> bool \<Rightarrow> error + (string list \<times> string list \<times> bool)" where
  "formatDependencies w package_manager deps raiseIncompatibilityError =
     (case formatLoop w raiseIncompatibilityError (dependencies_get deps package_manager) [] [] of
        Inl e \<Rightarrow> Inl e
      | Inr (finalDependencies, finalDependenciesNoDeps) \<Rightarrow>
          Inr (map quoted finalDependencies, map quoted finalDependenciesNoDeps,
               length finalDependencies + length finalDependenciesNoDeps > 0))"

subsection \<open>Proxies\<close>

definition getProxyEnvironmentVariablesCommands :: "manager \<Rightarrow> world \<Rightarrow> string list" where
  \<open>getProxyEnvironmentVariablesCommands m w =
     (case proxies m of
        None \<Rightarrow> []
      | Some ps \<Rightarrow>
          map (\<lambda>(name, value).
                 if \<not> isWindows w
                 then ''export '' @ py_lower name @ ''_proxy="'' @ value @ ''"''
                 else ''$Env:'' @ py_lower name @ ''_proxy="'' @ value @ ''"'') ps)\<close>

definition getProxyString :: "manager \<Rightarrow> string option" where
  "getProxyString m =
     (case proxies m of
        None \<Rightarrow> None
      | Some ps \<Rightarrow> (case map_of ps ''https'' of Some v \<Rightarrow> Some v | None \<Rightarrow> map_of ps ''http''))"

subsection \<open>installDependencies\<close>

definition pip_channel_message :: string where
  \<open>pip_channel_message = ''One pip dependency has a channel specifier "::" is it a conda dependency?''\<close>

text \<open>
  \<^verbatim>\<open>installDependencies\<close> builds the list of install instructions; it runs nothing. Its
  one effect is to empty the cache \<^verbatim>\<open>installedDependencies\<close> of the environment when
  the name is registered.
\<close>

definition invalidate :: "manager \<Rightarrow> world \<Rightarrow> string \<Rightarrow> world" where
  "invalidate m w environment =
     (case registry m w environment of
        None \<Rightarrow> w
      | Some e \<Rightarrow>
          w\<lparr>environments := (registry m w)(environment \<mapsto> e\<lparr>installedDependencies := Map.empty\<rparr>)\<rparr>)"

text \<open>The list \<^verbatim>\<open>installDepsCommands\<close> that \<^verbatim>\<open>installDependencies\<close> builds from the
  formatted lists.\<close>

definition installDepsCommands ::
  "manager \<Rightarrow> world \<Rightarrow> string \<Rightarrow> string list \<Rightarrow> string list \<Rightarrow> bool
     \<Rightarrow> string list \<Rightarrow> string list \<Rightarrow> bool \<Rightarrow> string list" where
  \<open>installDepsCommands m w environment condaDependencies condaDependenciesNoDeps
      hasCondaDependencies pipDependencies pipDependenciesNoDeps hasPipDependencies =
     (let proxyArgs = (case getProxyString m of None \<Rightarrow> '''' | Some p \<Rightarrow> ''--proxy '' @ p)
      in getProxyEnvironmentVariablesCommands m w
         @ (if hasCondaDependencies \<or> hasPipDependencies
            then [''echo "Activating environment '' @ environment @ ''..."'',
                  condaBin @ '' activate '' @ environment]
            else [])
         @ (if length condaDependencies > 0
            then [''echo "Installing conda dependencies..."'',
                  condaBinConfig m @ '' install '' @ join '' '' condaDependencies @ '' -y'']
            else [])
         @ (if length condaDependenciesNoDeps > 0
            then [''echo "Installing conda dependencies without their dependencies..."'',
                  condaBinConfig m @ '' install --no-deps ''
                    @ join '' '' condaDependenciesNoDeps @ '' -y'']
            else [])
         @ (if length pipDependencies > 0
            then [''echo "Installing pip dependencies..."'',
                  ''pip install '' @ proxyArgs @ '' '' @ join '' '' pipDependencies]
            else [])
         @ (if length pipDependenciesNoDeps > 0
            then [''echo "Installing pip dependencies without their dependencies..."'',
                  ''pip install '' @ proxyArgs @ '' --no-dependencies ''
                    @ join '' '' pipDependenciesNoDeps]
            else []))\<close>

definition installDependencies ::
  "manager \<Rightarrow> world \<Rightarrow> string \<Rightarrow> Dependencies \<Rightarrow> (error + string list) \<times> world" where
  \<open>installDependencies m w environment deps =
     (case formatDependencies w ''conda'' deps True of
        Inl e \<Rightarrow> (Inl e, w)
      | Inr (condaDependencies, condaDependenciesNoDeps, hasCondaDependencies) \<Rightarrow>
     (case formatDependencies w ''pip'' deps True of
        Inl e \<Rightarrow> (Inl e, w)
      | Inr (pipDependencies, pipDependenciesNoDeps, hasPipDependencies) \<Rightarrow>
        if list_ex (py_in ''::'') (pipDependencies @ pipDependenciesNoDeps)
        then (Inl (PipChannelException pip_channel_message), w)
        else (Inr (installDepsCommands m w environment
                     condaDependencies condaDependenciesNoDeps hasCondaDependencies
                     pipDependencies pipDependenciesNoDeps hasPipDependencies),
              invalidate m w environment)))\<close>

subsection \<open>installDependencies in the older copy\<close>

text \<open>
  The repository also holds an older copy of the manager, \<^verbatim>\<open>cema/environment_manager.py\<close>.
  In the methods treated here it has the same control flow (the differences that
  \<^verbatim>\<open>create\<close> meets are listed with \<open>create_legacy\<close> below), except in
  \<^verbatim>\<open>installDependencies\<close>: there the test for the channel qualifier comes first and
  reads the raw list \<^verbatim>\<open>dependencies['pip']\<close>, which raises \<^verbatim>\<open>KeyError\<close> without a
  \<^verbatim>\<open>pip\<close> key; on a structured entry \<^verbatim>\<open>'::' in d\<close> asks for a key of the dictionary
  and is false. The instructions name \<^verbatim>\<open>condaBin\<close> where the current copy names
  \<^verbatim>\<open>condaBinConfig\<close>. The message of its exception has the list in the middle,
  \<^verbatim>\<open>One pip dependency has a channel specifier "::" (<list>), is it a conda dependency?\<close>;
  as for the current copy, the model keeps the fixed text and leaves the list out.
\<close>

definition pip_channel_message_legacy :: string where
  \<open>pip_channel_message_legacy =
     ''One pip dependency has a channel specifier "::" (), is it a conda dependency?''\<close>

definition installDepsCommands_legacy ::
  "manager \<Rightarrow> world \<Rightarrow> string \<Rightarrow> string list \<Rightarrow> string list \<Rightarrow> bool
     \<Rightarrow> string list \<Rightarrow> string list \<Rightarrow> bool \<Rightarrow> string list" where
  \<open>installDepsCommands_legacy m w environment condaDependencies condaDependenciesNoDeps
      hasCondaDependencies pipDependencies pipDependenciesNoDeps hasPipDependencies =
     (let proxyArgs = (case getProxyString m of None \<Rightarrow> '''' | Some p \<Rightarrow> ''--proxy '' @ p)
      in getProxyEnvironmentVariablesCommands m w
         @ (if hasCondaDependencies \<or> hasPipDependencies
            then [''echo "Activating environment '' @ environment @ ''..."'',
                  condaBin @ '' activate '' @ environment]
            else [])
         @ (if length condaDependencies > 0
            then [''echo "Installing conda dependencies..."'',
                  condaBin @ '' install '' @ join '' '' condaDependencies @ '' -y'']
            else [])
         @ (if length condaDependenciesNoDeps > 0
            then [''echo "Installing conda dependencies without their dependencies..."'',
                  condaBin @ '' install --no-deps '' @ join '' '' condaDependenciesNoDeps @ '' -y'']
            else [])
         @ (if length pipDependencies > 0
            then [''echo "Installing pip dependencies..."'',
                  ''pip install '' @ proxyArgs @ '' '' @ join '' '' pipDependencies]
            else [])
         @ (if length pipDependenciesNoDeps > 0
            then [''echo "Installing pip dependencies without their dependencies..."'',
                  ''pip install '' @ proxyArgs @ '' --no-dependencies ''
                    @ join '' '' pipDependenciesNoDeps]
            else []))\<close>

definition installDependencies_legacy ::
  "manager \<Rightarrow> world \<Rightarrow> string \<Rightarrow> Dependencies \<Rightarrow> (error + string list) \<times> world" where
  \<open>installDependencies_legacy m w environment deps =
     (case pip deps of
        None \<Rightarrow> (Inl (KeyError ''pip''), w)
      | Some raw \<Rightarrow>
          if list_ex (\<lambda>d. case d of Spec s \<Rightarrow> py_in ''::'' s | Structured x \<Rightarrow> False) raw
          then (Inl (PipChannelException pip_channel_message_legacy), w)
          else
            (case formatDependencies w ''conda'' deps True of
               Inl e \<Rightarrow> (Inl e, w)
             | Inr (condaDependencies, condaDependenciesNoDeps, hasCondaDependencies) \<Rightarrow>
            (case formatDependencies w ''pip'' deps True of
               Inl e \<Rightarrow> (Inl e, w)
             | Inr (pipDependencies, pipDependenciesNoDeps, hasPipDependencies) \<Rightarrow>
                 (Inr (installDepsCommands_legacy m w environment
                         condaDependencies condaDependenciesNoDeps hasCondaDependencies
                         pipDependencies pipDependenciesNoDeps hasPipDependencies),
                  invalidate m w environment))))\<close>

subsection \<open>Running a script\<close>

text \<open>
  \<^verbatim>\<open>executeCommands\<close> writes the instructions, one per line, to a temporary script
  (with the error checks when asked) and starts it. The model records the lines of the
  script in \<open>executed\<close> and takes the subprocess from \<open>spawn\<close>. The \<^verbatim>\<open>chmod\<close> of
  the script file is not modelled.
\<close>

definition executeCommands ::
  "world \<Rightarrow> string list \<Rightarrow> (string \<times> string) list option \<Rightarrow> bool \<Rightarrow> process \<times> world" where
  "executeCommands w commands env exitIfCommandError =
     (let script = (if exitIfCommandError then insertCommandErrorChecks w commands else commands)
      in (spawn w script env, w\<lparr>executed := executed w @ [script]\<rparr>))"

text \<open>
  The loop of \<^verbatim>\<open>_getOutput\<close> over the lines of the output: \<open>None\<close> when a line holds
  the marker \<^verbatim>\<open>CondaSystemExit\<close>, where the source kills the process and raises; the
  lines after it are not read.
\<close>

fun readLines :: "bool \<Rightarrow> string list \<Rightarrow> string list \<Rightarrow> string list option" where
  "readLines strip [] outputs = Some outputs"
| "readLines strip (l # rest) outputs =
     (let line = (if strip then py_strip l else l)
      in if py_in ''CondaSystemExit'' line then None
         else readLines strip rest (outputs @ [line]))"

definition commandString :: "string list \<Rightarrow> string" where
  "commandString commands =
     (let pre = (if length (py_str commands) > 150 then ''[...] '' else '''')
      in if length commands > 0 then pre @ last150 (py_str commands) else '''')"

definition failed_message :: "string \<Rightarrow> string" where
  \<open>failed_message cs = ''The execution of the commands "'' @ cs @ ''" failed.''\<close>

definition getOutput ::
  "world \<Rightarrow> process \<Rightarrow> string list \<Rightarrow> bool \<Rightarrow> bool \<Rightarrow> (error + (string list \<times> int)) \<times> world" where
  "getOutput w process commands log strip =
     (case (case stdout process of None \<Rightarrow> Some [] | Some ls \<Rightarrow> readLines strip ls []) of
        None \<Rightarrow>
          (Inl (Exception (failed_message (commandString commands))),
           w\<lparr>killed := killed w @ [pid process]\<rparr>)
      | Some outputs \<Rightarrow>
          if returncode process \<noteq> 0
          then (Inl (Exception (failed_message (commandString commands))), w)
          else (Inr (outputs, returncode process), w))"

definition executeCommandAndGetOutput ::
  "world \<Rightarrow> string list \<Rightarrow> (string \<times> string) list option \<Rightarrow> bool \<Rightarrow> bool
     \<Rightarrow> (error + (string list \<times> int)) \<times> world" where
  "executeCommandAndGetOutput w commands env exitIfCommandError log =
     (let rawCommands = commands;
          (process, w1) = executeCommands w commands env exitIfCommandError
      in getOutput w1 process rawCommands log True)"

subsection \<open>Bootstrapping the package manager\<close>

text \<open>\<^verbatim>\<open>path / child\<close>: an absolute child replaces the path, an empty one leaves it.\<close>

definition path_div :: "string \<Rightarrow> string \<Rightarrow> string" where
  "path_div p child =
     (if child = [] then p else if hd child = CHR ''/'' then child else p @ ''/'' @ child)"

definition getCondaPaths :: "manager \<Rightarrow> world \<Rightarrow> string \<times> string" where
  "getCondaPaths m w =
     (condaPath m, if system w \<noteq> ''Windows'' then ''bin/micromamba'' else ''micromamba.exe'')"

definition setupCondaChannels :: "manager \<Rightarrow> string list" where
  "setupCondaChannels m =
     [condaBinConfig m @ '' config append channels conda-forge'',
      condaBinConfig m @ '' config append channels nodefaults'',
      condaBinConfig m @ '' config set channel_priority flexible'']"

definition shellHook :: "manager \<Rightarrow> world \<Rightarrow> string list" where
  \<open>shellHook m w =
     (let currentPath = cwd w;
          (condaPath0, condaBinPath) = getCondaPaths m w
      in if system w = ''Windows''
         then [''Set-Location -Path "'' @ condaPath0 @ ''"'',
               ''$Env:MAMBA_ROOT_PREFIX="'' @ condaPath0 @ ''"'',
               ''.'' @ [bslash] @ condaBinPath
                 @ '' shell hook -s powershell | Out-String | Invoke-Expression'',
               ''Set-Location -Path "'' @ currentPath @ ''"'']
         else [''cd "'' @ condaPath0 @ ''"'',
               ''export MAMBA_ROOT_PREFIX="'' @ condaPath0 @ ''"'',
               ''eval "$('' @ condaBinPath @ '' shell hook -s posix)"'',
               ''cd "'' @ currentPath @ ''"''])\<close>

text \<open>
  \<^verbatim>\<open>re.search(r"^[a-zA-Z]+://(.*?):(.*?)@", proxyString)\<close>: after the scheme, the first
  group runs to the first colon and the second to the first at-sign after it; neither
  crosses a newline. A longer first group cannot succeed where the shortest fails, since
  the second group would start later on the same line.
\<close>

definition proxy_credentials :: "string \<Rightarrow> (string \<times> string) option" where
  "proxy_credentials s =
     (let scheme = takeWhile is_alpha s; r = dropWhile is_alpha s
      in if scheme = [] \<or> \<not> prefix ''://'' r then None
         else
           (let r1 = drop 3 r;
                stop1 = (\<lambda>c. c \<noteq> CHR '':'' \<and> c \<noteq> newline);
                stop2 = (\<lambda>c. c \<noteq> CHR ''@'' \<and> c \<noteq> newline)
            in case dropWhile stop1 r1 of
                 [] \<Rightarrow> None
               | c # r2 \<Rightarrow>
                   if c \<noteq> CHR '':'' then None
                   else (case dropWhile stop2 r2 of
                           [] \<Rightarrow> None
                         | c2 # r3 \<Rightarrow>
                             if c2 \<noteq> CHR ''@'' then None
                             else Some (takeWhile stop1 r1, takeWhile stop2 r2))))"

text \<open>\<^verbatim>\<open>condaPath.mkdir(exist_ok=True, parents=True)\<close>: the path and its ancestors are
  directories afterwards.\<close>

definition ancestors :: "string \<Rightarrow> string set" where
  "ancestors p =
     (let parts = split_char (CHR ''/'') [] p
      in set (filter (\<lambda>q. q \<noteq> []) (map (\<lambda>k. join ''/'' (take k parts)) [1..<Suc (length parts)])))"

definition mkdir :: "world \<Rightarrow> string \<Rightarrow> world" where
  "mkdir w p = w\<lparr>paths := paths w \<union> ancestors p, dirs := dirs w \<union> ancestors p\<rparr>"

definition installCondaIfNecessary :: "manager \<Rightarrow> world \<Rightarrow> (error + string list) \<times> world" where
  \<open>installCondaIfNecessary m w =
     (let (condaPath0, condaBinPath) = getCondaPaths m w
      in if path_div condaPath0 condaBinPath \<in> paths w then (Inr [], w)
         else if system w \<notin> set [''Windows'', ''Linux'', ''Darwin'']
         then (Inl (Exception (''Platform '' @ system w @ '' is not supported.'')), w)
         else
           (let w1 = mkdir w condaPath0;
                commands = getProxyEnvironmentVariablesCommands m w1;
                proxyString = getProxyString m;
                temp = ''$env:Temp'' @ [bslash] @ ''vc_redist.x64.exe'';
                commands1 =
                  (if system w1 = ''Windows''
                   then
                     (let credentials =
                            (case proxyString of None \<Rightarrow> None | Some p \<Rightarrow> proxy_credentials p);
                          commands0 =
                            commands @
                            (case credentials of
                               None \<Rightarrow> []
                             | Some (username, password) \<Rightarrow>
                                 [''$proxyUsername = "'' @ username @ ''"'',
                                  ''$proxyPassword = "'' @ password @ ''"'',
                                  ''$securePassword = ConvertTo-SecureString $proxyPassword -AsPlainText -Force'',
                                  ''$proxyCredentials = New-Object System.Management.Automation.PSCredential($proxyUsername, $securePassword)'']);
                          proxyCredentials =
                            (case credentials of
                               None \<Rightarrow> ''''
                             | Some c \<Rightarrow> ''-ProxyCredential $proxyCredentials'');
                          proxyArgs =
                            (case proxyString of
                               None \<Rightarrow> ''''
                             | Some p \<Rightarrow> ''-Proxy '' @ p @ '' '' @ proxyCredentials)
                      in commands0 @
                         [''Set-Location -Path "'' @ condaPath0 @ ''"'',
                          ''echo "Installing Visual C++ Redistributable if necessary..."'',
                          ''Invoke-WebRequest '' @ proxyArgs
                            @ '' -URI "https://aka.ms/vs/17/release/vc_redist.x64.exe" -OutFile "''
                            @ temp @ ''"; Start-Process "'' @ temp
                            @ ''" -ArgumentList "/quiet /norestart" -Wait; Remove-Item "''
                            @ temp @ ''"'',
                          ''echo "Installing micromamba..."'',
                          ''Invoke-Webrequest '' @ proxyArgs
                            @ '' -URI https://github.com/mamba-org/micromamba-releases/releases/download/2.0.4-0/micromamba-win-64 -OutFile micromamba.exe'',
                          ''New-Item .mambarc -type file''])
                   else
                     (let system0 = (if system w1 = ''Darwin'' then ''osx'' else ''linux'');
                          machine0 = (if machine w1 = ''x86_64'' then ''64'' else machine w1);
                          proxyArgs =
                            (case proxyString of
                               None \<Rightarrow> ''''
                             | Some p \<Rightarrow> ''--proxy "'' @ p @ ''"'')
                      in commands @
                         [''cd "'' @ condaPath0 @ ''"'',
                          ''echo "Installing micromamba..."'',
                          ''curl '' @ proxyArgs @ '' -Ls https://micro.mamba.pm/api/micromamba/''
                            @ system0 @ ''-'' @ machine0 @ ''/latest | tar -xvj bin/micromamba'',
                          ''touch .mambarc'']))
            in (Inr (commands1 @ shellHook m w1 @ setupCondaChannels m), w1)))\<close>

definition activateConda :: "manager \<Rightarrow> world \<Rightarrow> (error + string list) \<times> world" where
  "activateConda m w =
     (case installCondaIfNecessary m w of
        (Inl e, w1) \<Rightarrow> (Inl e, w1)
      | (Inr commands, w1) \<Rightarrow> (Inr (commands @ shellHook m w1), w1))"

definition environmentExists :: "manager \<Rightarrow> world \<Rightarrow> string \<Rightarrow> bool" where
  "environmentExists m w environment =
     (path_div (path_div (path_div (condaPath m) ''envs'') environment) ''conda-meta'' \<in> dirs w)"

subsection \<open>dependenciesAreInstalled\<close>

text \<open>
  \<^verbatim>\<open>_removeChannel\<close>: the piece after the first \<^verbatim>\<open>::\<close>. The split has a second piece
  whenever the test holds, so the last case is never taken.
\<close>

definition removeChannel :: "string \<Rightarrow> string" where
  "removeChannel condaDependency =
     (if py_in ''::'' condaDependency
      then (case split_colons [] condaDependency of a # b # rest \<Rightarrow> b | other \<Rightarrow> condaDependency)
      else condaDependency)"

text \<open>
  The local \<^verbatim>\<open>installedDependencies\<close> is the cache dictionary of the environment when
  the name is registered, and a fresh dictionary otherwise. \<open>cached\<close> reads it at the
  start; \<open>remember\<close> is the assignment \<^verbatim>\<open>installedDependencies[key] = value\<close> as the
  registry sees it. \<^verbatim>\<open>f"{environment}"\<close> of \<open>None\<close> is the text \<^verbatim>\<open>None\<close>.
\<close>

definition cached :: "manager \<Rightarrow> world \<Rightarrow> string option \<Rightarrow> (string \<rightharpoonup> string list)" where
  "cached m w environment =
     (case environment of
        None \<Rightarrow> Map.empty
      | Some n \<Rightarrow> (case registry m w n of None \<Rightarrow> Map.empty | Some e \<Rightarrow> installedDependencies e))"

definition remember ::
  "manager \<Rightarrow> world \<Rightarrow> string option \<Rightarrow> string \<Rightarrow> string list \<Rightarrow> world" where
  "remember m w environment key v =
     (case environment of
        None \<Rightarrow> w
      | Some n \<Rightarrow>
          (case registry m w n of
             None \<Rightarrow> w
           | Some e \<Rightarrow>
               w\<lparr>environments :=
                    (registry m w)(n \<mapsto> e\<lparr>installedDependencies := (installedDependencies e)(key \<mapsto> v)\<rparr>)\<rparr>))"

definition str_opt :: "string option \<Rightarrow> string" where
  "str_opt environment = (case environment of None \<Rightarrow> ''None'' | Some n \<Rightarrow> n)"

definition lookup :: "(string \<rightharpoonup> string list) \<Rightarrow> string \<Rightarrow> string list" where
  "lookup installed key = (case installed key of None \<Rightarrow> [] | Some v \<Rightarrow> v)"

text \<open>
  The assignment \<^verbatim>\<open>installedDependencies[key], _ = self.executeCommandAndGetOutput(
  self._activateConda() + [f"{self.condaBin} activate {environment}", instruction],
  log=False)\<close>, which occurs for \<^verbatim>\<open>conda\<close> and for \<^verbatim>\<open>pip\<close>.
\<close>

definition queryInstalled ::
  "manager \<Rightarrow> world \<Rightarrow> string option \<Rightarrow> (string \<rightharpoonup> string list) \<Rightarrow> string \<Rightarrow> string
     \<Rightarrow> (error + (string \<rightharpoonup> string list)) \<times> world" where
  "queryInstalled m w environment installed key instruction =
     (case activateConda m w of
        (Inl e, w1) \<Rightarrow> (Inl e, w1)
      | (Inr activate, w1) \<Rightarrow>
          (case executeCommandAndGetOutput w1
                  (activate @ [condaBin @ '' activate '' @ str_opt environment, instruction])
                  None True False of
             (Inl e, w2) \<Rightarrow> (Inl e, w2)
           | (Inr (outputs, status), w2) \<Rightarrow>
               (Inr (installed(key \<mapsto> outputs)), remember m w2 environment key outputs)))"

definition dependenciesAreInstalled ::
  "manager \<Rightarrow> world \<Rightarrow> string option \<Rightarrow> Dependencies \<Rightarrow> (error + bool) \<times> world" where
  "dependenciesAreInstalled m w environment deps =
     (case formatDependencies w ''conda'' deps False of
        Inl e \<Rightarrow> (Inl e, w)
      | Inr (condaDependencies, condaDependenciesNoDeps, hasCondaDependencies) \<Rightarrow>
     (case formatDependencies w ''pip'' deps False of
        Inl e \<Rightarrow> (Inl e, w)
      | Inr (pipDependencies, pipDependenciesNoDeps, hasPipDependencies) \<Rightarrow>
     (case (if hasCondaDependencies \<and> cached m w environment ''conda'' = None
            then queryInstalled m w environment (cached m w environment) ''conda''
                   (condaBin @ '' list -y'')
            else (Inr (cached m w environment), w)) of
        (Inl e, w1) \<Rightarrow> (Inl e, w1)
      | (Inr installed1, w1) \<Rightarrow>
          if hasCondaDependencies
             \<and> \<not> list_all (\<lambda>d. removeChannel d \<in> set (lookup installed1 ''conda''))
                    (condaDependencies @ condaDependenciesNoDeps)
          then (Inr False, w1)
          else if \<not> hasPipDependencies then (Inr True, w1)
          else
            (case (if installed1 ''pip'' = None
                   then (if environment \<noteq> None
                         then queryInstalled m w1 environment installed1 ''pip'' ''pip freeze''
                         else (Inr (installed1(''pip'' \<mapsto>
                                       map (\<lambda>(n, v). n @ ''=='' @ v) (distributions w1))), w1))
                   else (Inr installed1, w1)) of
               (Inl e, w2) \<Rightarrow> (Inl e, w2)
             | (Inr installed2, w2) \<Rightarrow>
                 (Inr (list_all (\<lambda>d. d \<in> set (lookup installed2 ''pip''))
                         (pipDependencies @ pipDependenciesNoDeps)), w2)))))"

subsection \<open>create\<close>

definition getCommandsForCurrentPlatform :: "world \<Rightarrow> (string \<rightharpoonup> string list) \<Rightarrow> string list" where
  "getCommandsForCurrentPlatform w additionalCommands =
     (case additionalCommands ''all'' of None \<Rightarrow> [] | Some c \<Rightarrow> c)
     @ (case additionalCommands (getPlatformCommonName w) of None \<Rightarrow> [] | Some c \<Rightarrow> c)"

text \<open>
  \<^verbatim>\<open>re.search(r"(\d+)\.(\d+)", pythonVersion)\<close>. At a position the pattern matches when
  the longest run of digits there is followed by a dot and a digit (a shorter first group
  would be followed by a digit, not by the dot); the groups are that run and the longest
  run of digits after the dot. The search takes the first position that matches.
\<close>

definition match_here :: "string \<Rightarrow> (string \<times> string) option" where
  "match_here s =
     (let d1 = takeWhile is_digit s
      in if d1 = [] then None
         else (case dropWhile is_digit s of
                 [] \<Rightarrow> None
               | c # r \<Rightarrow>
                   if c = CHR ''.'' \<and> takeWhile is_digit r \<noteq> []
                   then Some (d1, takeWhile is_digit r) else None))"

fun re_search_version :: "string \<Rightarrow> (string \<times> string) option" where
  "re_search_version [] = None"
| "re_search_version (c # cs) =
     (case match_here (c # cs) of Some g \<Rightarrow> Some g | None \<Rightarrow> re_search_version cs)"

definition pythonVersion :: "Dependencies \<Rightarrow> string" where
  "pythonVersion deps =
     (case python deps of
        None \<Rightarrow> ''''
      | Some v \<Rightarrow> if v \<noteq> [] then remove_char (CHR ''='') v else '''')"

definition version_rejected :: "string \<Rightarrow> bool" where
  "version_rejected v =
     (case re_search_version v of
        None \<Rightarrow> False
      | Some (g1, g2) \<Rightarrow> py_int g1 < 3 \<or> py_int g2 < 9)"

definition create ::
  "manager \<Rightarrow> world \<Rightarrow> string \<Rightarrow> Dependencies \<Rightarrow> (string \<rightharpoonup> string list)
     \<Rightarrow> (string \<rightharpoonup> string list) \<Rightarrow> string option \<Rightarrow> bool \<Rightarrow> (error + bool) \<times> world" where
  "create m w environment deps additionalInstallCommands additionalActivateCommands
      mainEnvironment errorIfExists =
     (case (case mainEnvironment of
              None \<Rightarrow> (Inr False, w)
            | Some main \<Rightarrow> dependenciesAreInstalled m w (Some main) deps) of
        (Inl e, w1) \<Rightarrow> (Inl e, w1)
      | (Inr satisfied, w1) \<Rightarrow>
          if satisfied then (Inr False, w1)
          else if environmentExists m w1 environment
          then (if errorIfExists
                then (Inl (Exception (''Error: the environment '' @ environment @ '' already exists.'')), w1)
                else (Inr True, w1))
          else if version_rejected (pythonVersion deps)
          then (Inl (Exception ''Python version must be greater than 3.8''), w1)
          else
            (let pythonRequirement =
                   '' python='' @ (if length (pythonVersion deps) > 0 then pythonVersion deps
                                  else python_version w1)
             in case activateConda m w1 of
                  (Inl e, w2) \<Rightarrow> (Inl e, w2)
                | (Inr activate, w2) \<Rightarrow>
                    (case installDependencies m w2 environment deps of
                       (Inl e, w3) \<Rightarrow> (Inl e, w3)
                     | (Inr install, w3) \<Rightarrow>
                         (case executeCommandAndGetOutput w3
                                 (activate
                                  @ [condaBinConfig m @ '' create -n '' @ environment
                                       @ pythonRequirement @ '' -y'']
                                  @ install
                                  @ getCommandsForCurrentPlatform w3 additionalInstallCommands
                                  @ getCommandsForCurrentPlatform w3 additionalActivateCommands)
                                 None True True of
                            (Inl e, w4) \<Rightarrow> (Inl e, w4)
                          | (Inr out, w4) \<Rightarrow> (Inr True, w4)))))"

subsection \<open>create in the older copy\<close>

text \<open>
  The older copy, \<^verbatim>\<open>cema/environment_manager.py\<close>, has no \<^verbatim>\<open>condaBinConfig\<close> and no
  \<^verbatim>\<open>executeCommandAndGetOutput\<close>: every instruction names \<^verbatim>\<open>condaBin\<close>, and
  \<^verbatim>\<open>executeCommands\<close> itself reads the output when \<^verbatim>\<open>waitComplete\<close> is set and
  returns the process otherwise. Its \<^verbatim>\<open>_getOutput\<close> iterates over \<^verbatim>\<open>process.stdout\<close>
  without asking whether it is \<open>None\<close>. Its \<^verbatim>\<open>_shellHook\<close> ends with two instructions
  that show the configuration sources, and its \<^verbatim>\<open>_installCondaIfNecessary\<close> does not
  create the file \<^verbatim>\<open>.mambarc\<close>. It keeps \<^verbatim>\<open>condaPath\<close> as given and resolves it in
  \<^verbatim>\<open>_getCondaPaths\<close>; the model takes \<open>condaPath\<close> to be the resolved path in both
  copies. The methods \<^verbatim>\<open>_insertCommandErrorChecks\<close>, \<^verbatim>\<open>_formatDependencies\<close>,
  \<^verbatim>\<open>_removeChannel\<close>, \<^verbatim>\<open>environmentExists\<close>, \<^verbatim>\<open>_getCommandsForCurrentPlatfrom\<close> and
  the proxy methods are the same in both copies.
\<close>

definition getOutput_legacy ::
  "world \<Rightarrow> process \<Rightarrow> string list \<Rightarrow> bool \<Rightarrow> bool \<Rightarrow> (error + (string list \<times> int)) \<times> world" where
  \<open>getOutput_legacy w process commands log strip =
     (case stdout process of
        None \<Rightarrow> (Inl (TypeError (CHR 0x27 # ''NoneType'' @ CHR 0x27 # '' object is not iterable'')), w)
      | Some ls \<Rightarrow>
          (case readLines strip ls [] of
             None \<Rightarrow>
               (Inl (Exception (failed_message (commandString commands))),
                w\<lparr>killed := killed w @ [pid process]\<rparr>)
           | Some outputs \<Rightarrow>
               if returncode process \<noteq> 0
               then (Inl (Exception (failed_message (commandString commands))), w)
               else (Inr (outputs, returncode process), w)))\<close>

definition executeCommands_legacy ::
  "world \<Rightarrow> string list \<Rightarrow> (string \<times> string) list option \<Rightarrow> bool \<Rightarrow> bool \<Rightarrow> bool
     \<Rightarrow> (error + (process + (string list \<times> int))) \<times> world" where
  "executeCommands_legacy w commands env exitIfCommandError waitComplete log =
     (let rawCommands = commands;
          script = (if exitIfCommandError then insertCommandErrorChecks w commands else commands);
          process = spawn w script env;
          w1 = w\<lparr>executed := executed w @ [script]\<rparr>
      in if waitComplete
         then (case getOutput_legacy w1 process rawCommands log True of
                 (Inl e, w2) \<Rightarrow> (Inl e, w2)
               | (Inr out, w2) \<Rightarrow> (Inr (Inr out), w2))
         else (Inr (Inl process), w1))"

definition setupCondaChannels_legacy :: "string list" where
  "setupCondaChannels_legacy =
     [condaBin @ '' config append channels conda-forge'',
      condaBin @ '' config append channels nodefaults'',
      condaBin @ '' config set channel_priority flexible'']"

definition shellHook_legacy :: "manager \<Rightarrow> world \<Rightarrow> string list" where
  \<open>shellHook_legacy m w =
     (let currentPath = cwd w;
          (condaPath0, condaBinPath) = getCondaPaths m w;
          showConfig = [''echo "Mamba config sources:"'', condaBin @ '' config sources'']
      in if system w = ''Windows''
         then [''Set-Location -Path "'' @ condaPath0 @ ''"'',
               ''$Env:MAMBA_ROOT_PREFIX="'' @ condaPath0 @ ''"'',
               ''.'' @ [bslash] @ condaBinPath
                 @ '' shell hook -s powershell | Out-String | Invoke-Expression'',
               ''Set-Location -Path "'' @ currentPath @ ''"''] @ showConfig
         else [''cd "'' @ condaPath0 @ ''"'',
               ''export MAMBA_ROOT_PREFIX="'' @ condaPath0 @ ''"'',
               ''eval "$('' @ condaBinPath @ '' shell hook -s posix)"'',
               ''cd "'' @ currentPath @ ''"''] @ showConfig)\<close>

definition installCondaIfNecessary_legacy ::
  "manager \<Rightarrow> world \<Rightarrow> (error + string list) \<times> world" where
  \<open>installCondaIfNecessary_legacy m w =
     (let (condaPath0, condaBinPath) = getCondaPaths m w
      in if path_div condaPath0 condaBinPath \<in> paths w then (Inr [], w)
         else if system w \<notin> set [''Windows'', ''Linux'', ''Darwin'']
         then (Inl (Exception (''Platform '' @ system w @ '' is not supported.'')), w)
         else
           (let w1 = mkdir w condaPath0;
                commands = getProxyEnvironmentVariablesCommands m w1;
                proxyString = getProxyString m;
                temp = ''$env:Temp'' @ [bslash] @ ''vc_redist.x64.exe'';
                commands1 =
                  (if system w1 = ''Windows''
                   then
                     (let credentials =
                            (case proxyString of None \<Rightarrow> None | Some p \<Rightarrow> proxy_credentials p);
                          commands0 =
                            commands @
                            (case credentials of
                               None \<Rightarrow> []
                             | Some (username, password) \<Rightarrow>
                                 [''$proxyUsername = "'' @ username @ ''"'',
                                  ''$proxyPassword = "'' @ password @ ''"'',
                                  ''$securePassword = ConvertTo-SecureString $proxyPassword -AsPlainText -Force'',
                                  ''$proxyCredentials = New-Object System.Management.Automation.PSCredential($proxyUsername, $securePassword)'']);
                          proxyCredentials =
                            (case credentials of
                               None \<Rightarrow> ''''
                             | Some c \<Rightarrow> ''-ProxyCredential $proxyCredentials'');
                          proxyArgs =
                            (case proxyString of
                               None \<Rightarrow> ''''
                             | Some p \<Rightarrow> ''-Proxy '' @ p @ '' '' @ proxyCredentials)
                      in commands0 @
                         [''Set-Location -Path "'' @ condaPath0 @ ''"'',
                          ''echo "Installing Visual C++ Redistributable if necessary..."'',
                          ''Invoke-WebRequest '' @ proxyArgs
                            @ '' -URI "https://aka.ms/vs/17/release/vc_redist.x64.exe" -OutFile "''
                            @ temp @ ''"; Start-Process "'' @ temp
                            @ ''" -ArgumentList "/quiet /norestart" -Wait; Remove-Item "''
                            @ temp @ ''"'',
                          ''echo "Installing micromamba..."'',
                          ''Invoke-Webrequest '' @ proxyArgs
                            @ '' -URI https://github.com/mamba-org/micromamba-releases/releases/download/2.0.4-0/micromamba-win-64 -OutFile micromamba.exe''])
                   else
                     (let system0 = (if system w1 = ''Darwin'' then ''osx'' else ''linux'');
                          machine0 = (if machine w1 = ''x86_64'' then ''64'' else machine w1);
                          proxyArgs =
                            (case proxyString of
                               None \<Rightarrow> ''''
                             | Some p \<Rightarrow> ''--proxy "'' @ p @ ''"'')
                      in commands @
                         [''cd "'' @ condaPath0 @ ''"'',
                          ''echo "Installing micromamba..."'',
                          ''curl '' @ proxyArgs @ '' -Ls https://micro.mamba.pm/api/micromamba/''
                            @ system0 @ ''-'' @ machine0 @ ''/latest | tar -xvj bin/micromamba'']))
            in (Inr (commands1 @ shellHook_legacy m w1 @ setupCondaChannels_legacy), w1)))\<close>

definition activateConda_legacy :: "manager \<Rightarrow> world \<Rightarrow> (error + string list) \<times> world" where
  "activateConda_legacy m w =
     (case installCondaIfNecessary_legacy m w of
        (Inl e, w1) \<Rightarrow> (Inl e, w1)
      | (Inr commands, w1) \<Rightarrow> (Inr (commands @ shellHook_legacy m w1), w1))"

text \<open>
  The assignment \<^verbatim>\<open>installedDependencies[key], _ = self.executeCommands(
  self._activateConda() + [f'{self.condaBin} activate {environment}', instruction],
  waitComplete=True, log=False)\<close> of the older \<^verbatim>\<open>dependenciesAreInstalled\<close>.
\<close>

definition queryInstalled_legacy ::
  "manager \<Rightarrow> world \<Rightarrow> string option \<Rightarrow> (string \<rightharpoonup> string list) \<Rightarrow> string \<Rightarrow> string
     \<Rightarrow> (error + (string \<rightharpoonup> string list)) \<times> world" where
  "queryInstalled_legacy m w environment installed key instruction =
     (case activateConda_legacy m w of
        (Inl e, w1) \<Rightarrow> (Inl e, w1)
      | (Inr activate, w1) \<Rightarrow>
          (case executeCommands_legacy w1
                  (activate @ [condaBin @ '' activate '' @ str_opt environment, instruction])
                  None True True False of
             (Inl e, w2) \<Rightarrow> (Inl e, w2)
           | (Inr (Inl process), w2) \<Rightarrow>
               (Inl (TypeError ''cannot unpack non-iterable Popen object''), w2)
           | (Inr (Inr (outputs, status)), w2) \<Rightarrow>
               (Inr (installed(key \<mapsto> outputs)), remember m w2 environment key outputs)))"

definition dependenciesAreInstalled_legacy ::
  "manager \<Rightarrow> world \<Rightarrow> string option \<Rightarrow> Dependencies \<Rightarrow> (error + bool) \<times> world" where
  "dependenciesAreInstalled_legacy m w environment deps =
     (case formatDependencies w ''conda'' deps False of
        Inl e \<Rightarrow> (Inl e, w)
      | Inr (condaDependencies, condaDependenciesNoDeps, hasCondaDependencies) \<Rightarrow>
     (case formatDependencies w ''pip'' deps False of
        Inl e \<Rightarrow> (Inl e, w)
      | Inr (pipDependencies, pipDependenciesNoDeps, hasPipDependencies) \<Rightarrow>
     (case (if hasCondaDependencies \<and> cached m w environment ''conda'' = None
            then queryInstalled_legacy m w environment (cached m w environment) ''conda''
                   (condaBin @ '' list -y'')
            else (Inr (cached m w environment), w)) of
        (Inl e, w1) \<Rightarrow> (Inl e, w1)
      | (Inr installed1, w1) \<Rightarrow>
          if hasCondaDependencies
             \<and> \<not> list_all (\<lambda>d. removeChannel d \<in> set (lookup installed1 ''conda''))
                    (condaDependencies @ condaDependenciesNoDeps)
          then (Inr False, w1)
          else if \<not> hasPipDependencies then (Inr True, w1)
          else
            (case (if installed1 ''pip'' = None
                   then (if environment \<noteq> None
                         then queryInstalled_legacy m w1 environment installed1 ''pip'' ''pip freeze''
                         else (Inr (installed1(''pip'' \<mapsto>
                                       map (\<lambda>(n, v). n @ ''=='' @ v) (distributions w1))), w1))
                   else (Inr installed1, w1)) of
               (Inl e, w2) \<Rightarrow> (Inl e, w2)
             | (Inr installed2, w2) \<Rightarrow>
                 (Inr (list_all (\<lambda>d. d \<in> set (lookup installed2 ''pip''))
                         (pipDependencies @ pipDependenciesNoDeps)), w2)))))"

definition create_legacy ::
  "manager \<Rightarrow> world \<Rightarrow> string \<Rightarrow> Dependencies \<Rightarrow> (string \<rightharpoonup> string list)
     \<Rightarrow> (string \<rightharpoonup> string list) \<Rightarrow> string option \<Rightarrow> bool \<Rightarrow> (error + bool) \<times> world" where
  "create_legacy m w environment deps additionalInstallCommands additionalActivateCommands
      mainEnvironment errorIfExists =
     (case (case mainEnvironment of
              None \<Rightarrow> (Inr False, w)
            | Some main \<Rightarrow> dependenciesAreInstalled_legacy m w (Some main) deps) of
        (Inl e, w1) \<Rightarrow> (Inl e, w1)
      | (Inr satisfied, w1) \<Rightarrow>
          if satisfied then (Inr False, w1)
          else if environmentExists m w1 environment
          then (if errorIfExists
                then (Inl (Exception (''Error: the environment '' @ environment @ '' already exists.'')), w1)
                else (Inr True, w1))
          else if version_rejected (pythonVersion deps)
          then (Inl (Exception ''Python version must be greater than 3.8''), w1)
          else
            (let pythonRequirement =
                   '' python='' @ (if length (pythonVersion deps) > 0 then pythonVersion deps
                                  else python_version w1)
             in case activateConda_legacy m w1 of
                  (Inl e, w2) \<Rightarrow> (Inl e, w2)
                | (Inr activate, w2) \<Rightarrow>
                    (case installDependencies_legacy m w2 environment deps of
                       (Inl e, w3) \<Rightarrow> (Inl e, w3)
                     | (Inr install, w3) \<Rightarrow>
                         (case executeCommands_legacy w3
                                 (activate
                                  @ [condaBin @ '' create -n '' @ environment
                                       @ pythonRequirement @ '' -y'']
                                  @ install
                                  @ getCommandsForCurrentPlatform w3 additionalInstallCommands
                                  @ getCommandsForCurrentPlatform w3 additionalActivateCommands)
                                 None True True True of
                            (Inl e, w4) \<Rightarrow> (Inl e, w4)
                          | (Inr out, w4) \<Rightarrow> (Inr True, w4)))))"

subsection \<open>launch, exit and install\<close>

text \<open>
  The class \<^verbatim>\<open>ClientEnvironment\<close> is not among the sources. The manager calls three of
  its methods, which are parameters here: \<^verbatim>\<open>launched()\<close>, \<^verbatim>\<open>_exit()\<close> and
  \<^verbatim>\<open>initialize()\<close>. Each of the last two may raise and may change the state. In the base
  class of \<^verbatim>\<open>src/cema/environment.py\<close>, \<^verbatim>\<open>launched\<close> answers \<open>True\<close> and
  \<^verbatim>\<open>_exit\<close> does nothing.
\<close>

record ClientEnvironment_class =
  launched :: "world \<Rightarrow> ClientEnvironment \<Rightarrow> bool"
  exit0 :: "ClientEnvironment \<Rightarrow> world \<Rightarrow> (error + unit) \<times> world"
  initialize :: "ClientEnvironment \<Rightarrow> world \<Rightarrow> (error + unit) \<times> world"

definition environmentIsLaunched ::
  "ClientEnvironment_class \<Rightarrow> manager \<Rightarrow> world \<Rightarrow> string \<Rightarrow> bool" where
  "environmentIsLaunched cls m w environment =
     (case registry m w environment of None \<Rightarrow> False | Some e \<Rightarrow> launched cls w e)"

text \<open>\<^verbatim>\<open>s.replace(sub, "")\<close>: \<open>k\<close> counts the characters of an occurrence still to
  drop.\<close>

fun remove_sub :: "string \<Rightarrow> nat \<Rightarrow> string \<Rightarrow> string" where
  "remove_sub sub k [] = []"
| "remove_sub sub (Suc k) (c # cs) = remove_sub sub k cs"
| "remove_sub sub 0 (c # cs) =
     (if sub \<noteq> [] \<and> prefix sub (c # cs) then remove_sub sub (length sub - 1) cs
      else c # remove_sub sub 0 cs)"

text \<open>
  \<^verbatim>\<open>int(s)\<close>: white space around, an optional sign, then groups of digits separated by
  single underscores. \<^verbatim>\<open>str(i)\<close> of an integer.
\<close>

definition parse_int :: "string \<Rightarrow> int option" where
  "parse_int s =
     (let t = py_strip s;
          signed = (t \<noteq> [] \<and> (hd t = CHR ''-'' \<or> hd t = CHR ''+''));
          body = (if signed then tl t else t);
          groups = split_char (CHR ''_'') [] body
      in if list_all (\<lambda>g. g \<noteq> [] \<and> list_all is_digit g) groups
         then Some ((if signed \<and> hd t = CHR ''-'' then - 1 else 1) * int (py_int (concat groups)))
         else None)"

fun digits_of :: "nat \<Rightarrow> string" where
  "digits_of n =
     (if n < 10 then [hex_digit n] else digits_of (n div 10) @ [hex_digit (n mod 10)])"

declare digits_of.simps [simp del]

definition str_int :: "int \<Rightarrow> string" where
  "str_int i = (if i < 0 then ''-'' @ digits_of (nat (- i)) else digits_of (nat i))"

text \<open>
  The loop of \<^verbatim>\<open>launch\<close> over the lines of the worker: it stops at the first line that,
  stripped, starts with \<^verbatim>\<open>Listening port\<close> and a space, and reads the port from it. A
  line that does not parse raises out of the loop.
\<close>

fun readPort :: "string list \<Rightarrow> error + int option" where
  "readPort [] = Inr None"
| "readPort (line # rest) =
     (if prefix ''Listening port '' (py_strip line)
      then (case parse_int (remove_sub ''Listening port '' 0 (py_strip line)) of
              None \<Rightarrow> Inl (ValueError (remove_sub ''Listening port '' 0 (py_strip line)))
            | Some p \<Rightarrow> Inr (Some p))
      else readPort rest)"

text \<open>
  \<^verbatim>\<open>launch\<close>. The thread that drains the output of the worker is not modelled. The
  record is registered before \<^verbatim>\<open>initialize\<close> is called.
\<close>

definition launch ::
  "ClientEnvironment_class \<Rightarrow> manager \<Rightarrow> world \<Rightarrow> string \<Rightarrow> string option
     \<Rightarrow> (string \<times> string) list option \<Rightarrow> bool \<Rightarrow> (string \<rightharpoonup> string list) \<Rightarrow> bool
     \<Rightarrow> (error + ClientEnvironment) \<times> world" where
  \<open>launch cls m w environment customCommand environmentVariables condaEnvironment
      additionalActivateCommands logOutput =
     (if environmentIsLaunched cls m w environment
      then (case registry m w environment of
              None \<Rightarrow> (Inl (KeyError environment), w)
            | Some e \<Rightarrow> (Inr e, w))
      else
        (let moduleCallerPath = path_div (package_dir w) ''module_caller.py''
         in case (if condaEnvironment
                  then (case activateConda m w of
                          (Inl e, w1) \<Rightarrow> (Inl e, w1)
                        | (Inr activate, w1) \<Rightarrow>
                            (Inr (activate @ [condaBin @ '' activate '' @ environment]), w1))
                  else (Inr [], w)) of
              (Inl e, w1) \<Rightarrow> (Inl e, w1)
            | (Inr commands0, w1) \<Rightarrow>
                (let commands =
                       commands0
                       @ getCommandsForCurrentPlatform w1 additionalActivateCommands
                       @ [(case customCommand of
                             None \<Rightarrow> ''python -u "'' @ moduleCallerPath @ ''" '' @ environment
                           | Some c \<Rightarrow> c)];
                     (process, w2) = executeCommands w1 commands environmentVariables True
                 in case (case stdout process of None \<Rightarrow> Inr None | Some ls \<Rightarrow> readPort ls) of
                      Inl e \<Rightarrow> (Inl e, w2)
                    | Inr found \<Rightarrow>
                        if ended process
                        then (Inl (Exception (''Process exited with return code ''
                                     @ str_int (returncode process) @ ''.'')), w2)
                        else
                          (let ce = \<lparr>ce_name = environment,
                                     ce_port = (case found of None \<Rightarrow> - 1 | Some p \<Rightarrow> p),
                                     ce_process = process,
                                     installedDependencies = Map.empty\<rparr>;
                               w3 = w2\<lparr>environments := (registry m w2)(environment \<mapsto> ce)\<rparr>
                           in case initialize cls ce w3 of
                                (Inl e, w4) \<Rightarrow> (Inl e, w4)
                              | (Inr u, w4) \<Rightarrow> (Inr ce, w4)))))\<close>

text \<open>
  \<^verbatim>\<open>exit\<close> takes an environment or a name. \<^verbatim>\<open>del self.environments[name]\<close> raises
  \<^verbatim>\<open>KeyError\<close> when \<^verbatim>\<open>_exit\<close> has already removed the name.
\<close>

definition environmentName :: "ClientEnvironment + string \<Rightarrow> string" where
  "environmentName environment = (case environment of Inl e \<Rightarrow> ce_name e | Inr n \<Rightarrow> n)"

definition exit ::
  "ClientEnvironment_class \<Rightarrow> manager \<Rightarrow> world \<Rightarrow> ClientEnvironment + string
     \<Rightarrow> (error + unit) \<times> world" where
  "exit cls m w environment =
     (case registry m w (environmentName environment) of
        None \<Rightarrow> (Inr (), w)
      | Some registered \<Rightarrow>
          (case exit0 cls registered w of
             (Inl e, w1) \<Rightarrow> (Inl e, w1)
           | (Inr u, w1) \<Rightarrow>
               if environmentName environment \<in> dom (registry m w1)
               then (Inr (),
                     w1\<lparr>environments := (registry m w1)(environmentName environment := None)\<rparr>)
               else (Inl (KeyError (environmentName environment)), w1)))"

definition install ::
  "manager \<Rightarrow> world \<Rightarrow> string \<Rightarrow> string \<Rightarrow> string option \<Rightarrow> (error + unit) \<times> world" where
  "install m w environment package channel =
     (let channel0 = (case channel of None \<Rightarrow> '''' | Some c \<Rightarrow> c @ ''::'')
      in case activateConda m w of
           (Inl e, w1) \<Rightarrow> (Inl e, w1)
         | (Inr activate, w1) \<Rightarrow>
             (case executeCommandAndGetOutput w1
                     (activate @ [condaBin @ '' activate '' @ environment,
                                  condaBinConfig m @ '' install '' @ channel0 @ package @ '' -y''])
                     None True True of
                (Inl e, w2) \<Rightarrow> (Inl e, w2)
              | (Inr out, w2) \<Rightarrow>
                  if environment \<in> dom (registry m w2)
                  then (Inr (), invalidate m w2 environment)
                  else (Inl (KeyError environment), w2)))"

section \<open>Environment\<close>

text \<open>
  \<^verbatim>\<open>src/cema/environment.py\<close>. An environment object holds its name and a reference to
  its manager; \<^verbatim>\<open>modules\<close> is a class attribute, in \<open>world\<close>.

  Paths are POSIX paths. \<^verbatim>\<open>Path(p).name\<close> is the last component that is neither empty
  nor a dot; \<^verbatim>\<open>stem\<close> cuts the last suffix when the last dot of the name is neither its
  first nor its last character; \<^verbatim>\<open>parent\<close> drops the last component. The root of a
  path is \<^verbatim>\<open>//\<close> when the path starts with exactly two slashes, and \<^verbatim>\<open>/\<close> when it
  starts with one or with three or more.
\<close>

record Environment =
  env_name :: "string option"
  environmentManager :: manager

definition path_parts :: "string \<Rightarrow> string list" where
  "path_parts p = filter (\<lambda>c. c \<noteq> [] \<and> c \<noteq> ''.'') (split_char (CHR ''/'') [] p)"

definition path_name :: "string \<Rightarrow> string" where
  "path_name p = (if path_parts p = [] then '''' else last (path_parts p))"

definition path_stem :: "string \<Rightarrow> string" where
  "path_stem p =
     (let n = path_name p; base = rev (tl (dropWhile (\<lambda>c. c \<noteq> CHR ''.'') (rev n)))
      in if CHR ''.'' \<in> set n \<and> base \<noteq> [] \<and> last n \<noteq> CHR ''.'' then base else n)"

definition path_root :: "string \<Rightarrow> string" where
  "path_root p =
     (if prefix ''//'' p \<and> \<not> prefix ''///'' p then ''//''
      else if prefix ''/'' p then ''/'' else '''')"

definition path_parent :: "string \<Rightarrow> string" where
  "path_parent p =
     (let root = path_root p; init = butlast (path_parts p)
      in if root \<noteq> [] then root @ join ''/'' init
         else if init = [] then ''.'' else join ''/'' init)"

definition isModFunction :: "module \<Rightarrow> member \<Rightarrow> bool" where
  "isModFunction md func =
     (case func of Function n file \<Rightarrow> file = mod_file md | Other \<Rightarrow> False)"

definition listFunctions :: "module \<Rightarrow> string list" where
  "listFunctions md =
     map (\<lambda>func. case func of Function n file \<Rightarrow> n | Other \<Rightarrow> '''')
       (filter (isModFunction md) (map snd (mod_dict md)))"

text \<open>
  The attribute lookup \<^verbatim>\<open>self.modules\<close> ends at the class attribute
  \<^verbatim>\<open>Environment.modules\<close>: no method assigns \<^verbatim>\<open>self.modules\<close>.

  \<^verbatim>\<open>_importModule\<close>: the cache is keyed by the stem of the path.
  \<^verbatim>\<open>import_module(module)\<close> is \<open>find_module\<close> under the extended \<^verbatim>\<open>sys.path\<close>; each
  call is recorded in \<open>imported\<close>.
\<close>

definition module_cache :: "Environment \<Rightarrow> world \<Rightarrow> (string \<rightharpoonup> module)" where
  "module_cache self w = modules w"

definition importModule0 :: "Environment \<Rightarrow> world \<Rightarrow> string \<Rightarrow> (error + module) \<times> world" where
  "importModule0 self w modulePath =
     (let module0 = path_stem modulePath
      in case module_cache self w module0 of
           Some md \<Rightarrow> (Inr md, w)
         | None \<Rightarrow>
             (let w1 = w\<lparr>sys_path := sys_path w @ [path_parent modulePath]\<rparr>;
                  w2 = w1\<lparr>imported := imported w1 @ [module0]\<rparr>
              in case find_module w2 (sys_path w2) module0 of
                   None \<Rightarrow> (Inl (ImportError module0), w2)
                 | Some md \<Rightarrow> (Inr md, w2\<lparr>modules := (module_cache self w2)(module0 \<mapsto> md)\<rparr>)))"

text \<open>
  \<^verbatim>\<open>importModule\<close>: the proxy object has one attribute per function of the module; each
  is a closure over the module path and the function name, which calls
  \<^verbatim>\<open>self.execute(modulePath, name, args, kwargs)\<close> when invoked.
\<close>

definition importModule ::
  "Environment \<Rightarrow> world \<Rightarrow> string \<Rightarrow> (error + (string \<times> string \<times> string) list) \<times> world" where
  "importModule self w modulePath =
     (case importModule0 self w modulePath of
        (Inl e, w1) \<Rightarrow> (Inl e, w1)
      | (Inr md, w1) \<Rightarrow> (Inr (map (\<lambda>f. (f, modulePath, f)) (listFunctions md)), w1))"

section \<open>Concrete inputs\<close>

text \<open>
  A Linux machine with the package manager installed and no environment on disk; every
  script prints the readiness line of a worker and keeps running. Two managers with
  different roots. \<open>base_class\<close> has the methods of the base class of
  \<^verbatim>\<open>src/cema/environment.py\<close>.
\<close>

definition worker :: process where
  "worker = \<lparr>pid = 7, stdout = Some [''Listening port 5000'' @ [newline]], returncode = 0,
              ended = False\<rparr>"

definition linux_world :: world where
  "linux_world =
     \<lparr>system = ''Linux'', machine = ''x86_64'', python_version = ''3.10.4'', cwd = ''/home/u'',
      package_dir = ''/pkg/cema'',
      paths = {''/opt/micromamba/bin/micromamba'', ''/srv/mamba/bin/micromamba''},
      dirs = {},
      distributions = [(''numpy'', ''1.26.0'')],
      spawn = (\<lambda>script env. worker),
      executed = [], killed = [], environments = Map.empty, modules = Map.empty,
      sys_path = [], find_module = (\<lambda>path n. None), imported = []\<rparr>"

definition manager_a :: manager where
  \<open>manager_a = \<lparr>condaPath = ''/opt/micromamba'',
                 condaBinConfig = ''micromamba --rc-file "/opt/micromamba/.mambarc"'',
                 proxies = None\<rparr>\<close>

definition manager_b :: manager where
  \<open>manager_b = \<lparr>condaPath = ''/srv/mamba'',
                 condaBinConfig = ''micromamba --rc-file "/srv/mamba/.mambarc"'',
                 proxies = None\<rparr>\<close>

definition base_class :: ClientEnvironment_class where
  "base_class = \<lparr>launched = (\<lambda>w e. True), exit0 = (\<lambda>e w. (Inr (), w)),
                  initialize = (\<lambda>e w. (Inr (), w))\<rparr>"

definition client :: ClientEnvironment where
  "client = \<lparr>ce_name = ''env'', ce_port = 5000, ce_process = worker,
              installedDependencies = Map.empty\<rparr>"

definition launched_world :: world where
  "launched_world = linux_world\<lparr>environments := [''env'' \<mapsto> client]\<rparr>"

definition after_launch :: world where
  "after_launch =
     snd (launch base_class manager_a linux_world ''env'' None None True Map.empty True)"

section \<open>Notions of the specification\<close>

text \<open>
  The line \<^verbatim>\<open>_getOutput\<close> keeps for a line of output, whether some line holds the fatal
  marker, and the lines a process prints.
\<close>

definition keep_line :: "bool \<Rightarrow> string \<Rightarrow> string" where
  "keep_line strip l = (if strip then py_strip l else l)"

definition has_marker :: "bool \<Rightarrow> string list \<Rightarrow> bool" where
  "has_marker strip ls = list_ex (\<lambda>l. py_in ''CondaSystemExit'' (keep_line strip l)) ls"

definition output_lines :: "process \<Rightarrow> string list" where
  "output_lines p = (case stdout p of None \<Rightarrow> [] | Some ls \<Rightarrow> ls)"

text \<open>
  The specifier of an entry. An entry is \<open>rejected\<close> on a platform when it is structured,
  its platforms are a non-empty list (not the sentinel) without the platform, and it is not
  optional. It is \<open>kept\<close> when it is a string, or structured with the sentinel, an empty
  list, or a list that has the platform.
\<close>

definition specifier :: "entry \<Rightarrow> string" where
  "specifier e = (case e of Spec s \<Rightarrow> s | Structured d \<Rightarrow> dep_name d)"

definition rejected :: "string \<Rightarrow> entry \<Rightarrow> bool" where
  "rejected currentPlatform e =
     (case e of
        Spec s \<Rightarrow> False
      | Structured d \<Rightarrow>
          (case dep_platforms d of
             AllPlatforms \<Rightarrow> False
           | Platforms ps \<Rightarrow> ps \<noteq> [] \<and> currentPlatform \<notin> set ps \<and> \<not> dep_optional d))"

definition kept :: "string \<Rightarrow> entry \<Rightarrow> bool" where
  "kept currentPlatform e =
     (case e of
        Spec s \<Rightarrow> True
      | Structured d \<Rightarrow>
          (case dep_platforms d of
             AllPlatforms \<Rightarrow> True
           | Platforms ps \<Rightarrow> ps = [] \<or> currentPlatform \<in> set ps))"

definition kept_specifiers :: "string \<Rightarrow> entry list \<Rightarrow> string list" where
  "kept_specifiers currentPlatform es = map specifier (filter (kept currentPlatform) es)"

text \<open>
  More concrete inputs: a process whose first line holds the fatal marker and that would
  end with status 0, and one without the marker that ends with status 1; dependency
  specifications.
\<close>

definition fatal_process :: process where
  "fatal_process = \<lparr>pid = 8, stdout = Some [''CondaSystemExit'' @ [newline], ''more''],
                     returncode = 0, ended = True\<rparr>"

definition failing_process :: process where
  "failing_process = \<lparr>pid = 9, stdout = Some [''error'' @ [newline]], returncode = 1,
                       ended = True\<rparr>"

definition deps_optional_channel :: Dependencies where
  "deps_optional_channel =
     \<lparr>conda = None,
      pip = Some [Structured \<lparr>dep_name = ''conda-forge::pyqt'', dep_platforms = Platforms [''osx-arm64''],
                               dep_optional = True, dep_dependencies = None\<rparr>],
      python = None\<rparr>"

definition deps_pip_channel :: Dependencies where
  "deps_pip_channel =
     \<lparr>conda = Some [Spec ''pkgA==1.0''], pip = Some [Spec ''conda-forge::numpy''], python = None\<rparr>"

definition deps_plain :: Dependencies where
  "deps_plain =
     \<lparr>conda = Some [Spec ''pkgA==1.0''], pip = Some [Spec ''numpy==1.26.0''], python = Some ''3.10''\<rparr>"

text \<open>
  A process \<open>succeeds\<close> when its output has no fatal marker and its status is 0.
  \<open>create_instruction\<close> is the instruction of \<^verbatim>\<open>create\<close> that creates the environment
  with its pinned Python version. \<open>installed_names\<close> is the list
  \<^verbatim>\<open>dependenciesAreInstalled\<close> builds from \<^verbatim>\<open>metadata.distributions()\<close>.
\<close>

definition succeeds :: "process \<Rightarrow> bool" where
  "succeeds p = (\<not> has_marker True (output_lines p) \<and> returncode p = 0)"

definition create_instruction :: "manager \<Rightarrow> world \<Rightarrow> string \<Rightarrow> Dependencies \<Rightarrow> string" where
  "create_instruction m w environment deps =
     condaBinConfig m @ '' create -n '' @ environment @ '' python=''
       @ (if pythonVersion deps = [] then python_version w else pythonVersion deps) @ '' -y''"

text \<open>
  \<open>create_script\<close> is the script \<^verbatim>\<open>create\<close> writes for an environment that is not on
  disk and whose Python version is accepted: the instructions that activate the package
  manager, the create instruction, the install instructions and the additional
  instructions for the platform, each followed by the error check. It is \<open>None\<close> when
  building the instructions raises.
\<close>

definition create_script ::
  "manager \<Rightarrow> world \<Rightarrow> string \<Rightarrow> Dependencies \<Rightarrow> (string \<rightharpoonup> string list)
     \<Rightarrow> (string \<rightharpoonup> string list) \<Rightarrow> string list option" where
  "create_script m w environment deps additionalInstallCommands additionalActivateCommands =
     (case activateConda m w of
        (Inl e, w2) \<Rightarrow> None
      | (Inr activate, w2) \<Rightarrow>
          (case installDependencies m w2 environment deps of
             (Inl e, w3) \<Rightarrow> None
           | (Inr instrs, w3) \<Rightarrow>
               Some (insertCommandErrorChecks w3
                       (activate @ [create_instruction m w environment deps] @ instrs
                          @ getCommandsForCurrentPlatform w3 additionalInstallCommands
                          @ getCommandsForCurrentPlatform w3 additionalActivateCommands))))"


text \<open>
  The Linux machine with the environment \<^verbatim>\<open>env\<close> of the first manager on disk; further
  dependency specifications; two modules of the same name in the directories \<^verbatim>\<open>a\<close> and
  \<^verbatim>\<open>b\<close>, found by the first entry of \<^verbatim>\<open>sys.path\<close>; an environment object of each
  manager.
\<close>

definition existing_world :: world where
  "existing_world = linux_world\<lparr>dirs := {''/opt/micromamba/envs/env/conda-meta''}\<rparr>"

definition deps_incompatible :: Dependencies where
  "deps_incompatible =
     \<lparr>conda = Some [Structured \<lparr>dep_name = ''cudatoolkit'', dep_platforms = Platforms [''win-64''],
                                 dep_optional = False, dep_dependencies = None\<rparr>],
      pip = None, python = None\<rparr>"

definition deps_python :: "string \<Rightarrow> Dependencies" where
  "deps_python v = \<lparr>conda = None, pip = None, python = Some v\<rparr>"

definition deps_scenario :: Dependencies where
  "deps_scenario = \<lparr>conda = Some [Spec ''pkgA==1.0''], pip = None, python = None\<rparr>"

definition deps_conda_only :: Dependencies where
  "deps_conda_only = \<lparr>conda = Some [Spec ''numpy''], pip = None, python = None\<rparr>"


definition module_a :: module where
  "module_a = \<lparr>mod_name = ''util'', mod_file = ''a/util.py'',
                mod_dict = [(''f_a'', Function ''f_a'' ''a/util.py''),
                            (''Path'', Other),
                            (''helper'', Function ''helper'' ''lib/helpers.py'')]\<rparr>"

definition module_b :: module where
  "module_b = \<lparr>mod_name = ''util'', mod_file = ''b/util.py'',
                mod_dict = [(''f_b'', Function ''f_b'' ''b/util.py'')]\<rparr>"

definition module_world :: world where
  "module_world =
     linux_world\<lparr>find_module :=
       (\<lambda>path n. if n = ''util'' \<and> path \<noteq> [] \<and> hd path = ''a'' then Some module_a
                  else if n = ''util'' \<and> path \<noteq> [] \<and> hd path = ''b'' then Some module_b
                  else None)\<rparr>"

definition env_a :: Environment where
  "env_a = \<lparr>env_name = Some ''one'', environmentManager = manager_a\<rparr>"

definition env_b :: Environment where
  "env_b = \<lparr>env_name = Some ''two'', environmentManager = manager_b\<rparr>"

definition after_import :: world where
  "after_import = snd (importModule env_a module_world ''a/util.py'')"

section \<open>Evaluation on the concrete inputs\<close>

lemmas concrete_defs =
  linux_world_def manager_a_def manager_b_def base_class_def worker_def client_def
  launched_world_def

lemmas launch_defs =
  launch_def environmentIsLaunched_def registry_def activateConda_def
  installCondaIfNecessary_def getCondaPaths_def path_div_def shellHook_def
  getCommandsForCurrentPlatform_def getPlatformCommonName_def executeCommands_def
  insertCommandErrorChecks_def isWindows_def condaBin_def Let_def
  py_strip_def is_space_def newline_def parse_int_def py_int_def is_digit_def
  py_lower_def lower_char_def

lemma first_launch_returns_client:
  "fst (launch base_class manager_a linux_world ''env'' None None True Map.empty True) = Inr client"
  by (simp add: launch_defs concrete_defs)

lemma first_launch_registers_client:
  "environments after_launch = [''env'' \<mapsto> client]"
  by (simp add: after_launch_def launch_defs concrete_defs)

lemma first_launch_runs_one_script:
  "length (executed after_launch) = 1"
  by (simp add: after_launch_def launch_defs concrete_defs)

section \<open>The registry: launch and exit\<close>

text \<open>
  Claim C2. When the name is currently launched, \<^verbatim>\<open>launch\<close> returns the record that is
  registered under the name (with the port and process it is bound to) and leaves the
  whole state as it was: no script is written or started, so no second worker exists.
\<close>

theorem launch_idempotent:
  "environmentIsLaunched cls m w name \<Longrightarrow>
     \<exists>e. registry m w name = Some e
       \<and> launch cls m w name customCommand environmentVariables condaEnvironment
            additionalActivateCommands logOutput = (Inr e, w)"
  by (auto simp: launch_def environmentIsLaunched_def split: option.splits)

theorem launch_idempotent_witness:
  "fst (launch base_class manager_a linux_world ''env'' None None True Map.empty True) = Inr client
   \<and> environmentIsLaunched base_class manager_a after_launch ''env''
   \<and> launch base_class manager_a after_launch ''env'' None None True Map.empty True
       = (Inr client, after_launch)
   \<and> length (executed after_launch) = 1"
proof -
  have reg: "registry manager_a after_launch ''env'' = Some client"
    by (simp add: registry_def first_launch_registers_client)
  have live: "environmentIsLaunched base_class manager_a after_launch ''env''"
    by (simp add: environmentIsLaunched_def reg base_class_def)
  from launch_idempotent [OF live, of None None True Map.empty True] reg
  have "launch base_class manager_a after_launch ''env'' None None True Map.empty True
          = (Inr client, after_launch)"
    by auto
  with live first_launch_returns_client first_launch_runs_one_script show ?thesis
    by simp
qed

text \<open>
  Claim C6. For a registered name whose \<^verbatim>\<open>_exit\<close> returns (and leaves the name
  registered), \<^verbatim>\<open>exit\<close> returns and removes the record. Whenever \<^verbatim>\<open>exit\<close> has
  returned, the name is no longer registered, and a further \<^verbatim>\<open>exit\<close> for it returns
  without an error and leaves the whole state as it was, whatever \<^verbatim>\<open>_exit\<close> would do:
  \<^verbatim>\<open>_exit\<close> is not called, so no process handle is touched again. The same holds for
  any name that is not registered.
\<close>

theorem exit_removes_record_then_noop:
  "(registry m w (environmentName a) = Some e \<and> exit0 cls e w = (Inr (), w1)
      \<and> registry m w1 (environmentName a) \<noteq> None \<longrightarrow>
      exit cls m w a
        = (Inr (), w1\<lparr>environments := (registry m w1)(environmentName a := None)\<rparr>))
   \<and> (exit cls m w a = (Inr (), w') \<longrightarrow>
        registry m w' (environmentName a) = None \<and> (\<forall>cls'. exit cls' m w' a = (Inr (), w')))
   \<and> (registry m w (environmentName a) = None \<longrightarrow> exit cls m w a = (Inr (), w))"
  by (auto simp: exit_def registry_def split: option.splits prod.splits sum.splits if_splits)

theorem exit_removes_record_then_noop_witness:
  "registry manager_a launched_world ''env'' = Some client
   \<and> exit base_class manager_a launched_world (Inr ''env'') = (Inr (), linux_world)
   \<and> registry manager_a linux_world ''env'' = None
   \<and> exit base_class manager_a linux_world (Inr ''env'') = (Inr (), linux_world)
   \<and> exit base_class manager_a linux_world (Inr ''other'') = (Inr (), linux_world)"
  using exit_removes_record_then_noop
          [of manager_a launched_world "Inr ''env''" client base_class launched_world linux_world]
        exit_removes_record_then_noop
          [of manager_a linux_world "Inr ''other''" client base_class linux_world linux_world]
  by (simp add: exit_def registry_def environmentName_def concrete_defs)

text \<open>
  Claim C9, as the code has it. The registry is one dictionary of the class, shared by all
  instances: at any moment every instance reads the same registry; what is launched
  through one instance is returned by \<^verbatim>\<open>launch\<close> through any other without a script
  being run; what one instance exits is gone for every other, whose \<^verbatim>\<open>exit\<close> then has
  nothing to do.
\<close>

theorem registry_shared:
  "registry m2 w = registry m1 w
   \<and> (environmentIsLaunched cls m1 w name \<longrightarrow>
        (\<exists>e. registry m1 w name = Some e
           \<and> launch cls m2 w name customCommand environmentVariables condaEnvironment
                additionalActivateCommands logOutput = (Inr e, w)))
   \<and> (exit cls m1 w a = (Inr (), w') \<longrightarrow>
        registry m2 w' (environmentName a) = None \<and> exit cls m2 w' a = (Inr (), w'))"
  by (auto simp: registry_def launch_def environmentIsLaunched_def exit_def
        split: option.splits prod.splits sum.splits if_splits)

theorem registry_shared_witness:
  "manager_a \<noteq> manager_b
   \<and> environmentIsLaunched base_class manager_a after_launch ''env''
   \<and> launch base_class manager_b after_launch ''env'' None None True Map.empty True
       = (Inr client, after_launch)
   \<and> exit base_class manager_a launched_world (Inr ''env'') = (Inr (), linux_world)
   \<and> registry manager_b linux_world ''env'' = None
   \<and> exit base_class manager_b linux_world (Inr ''env'') = (Inr (), linux_world)"
proof -
  have reg: "registry manager_a after_launch ''env'' = Some client"
    by (simp add: registry_def first_launch_registers_client)
  have live: "environmentIsLaunched base_class manager_a after_launch ''env''"
    by (simp add: environmentIsLaunched_def reg base_class_def)
  have ex: "exit base_class manager_a launched_world (Inr ''env'') = (Inr (), linux_world)"
    by (simp add: exit_def registry_def environmentName_def concrete_defs)
  from registry_shared [of manager_b after_launch manager_a base_class "''env''" None None True
         Map.empty True "Inr ''env''" after_launch] live reg
  have "launch base_class manager_b after_launch ''env'' None None True Map.empty True
          = (Inr client, after_launch)"
    by auto
  moreover from registry_shared [of manager_b launched_world manager_a base_class "''env''" None None
         True Map.empty True "Inr ''env''" linux_world] ex
  have "registry manager_b linux_world ''env'' = None
        \<and> exit base_class manager_b linux_world (Inr ''env'') = (Inr (), linux_world)"
    by (simp add: environmentName_def)
  moreover have "manager_a \<noteq> manager_b"
    by (simp add: manager_a_def manager_b_def)
  ultimately show ?thesis
    using live ex by simp
qed

text \<open>
  The claim says that registering or removing through one instance leaves the registry
  seen through another unchanged. Launching \<^verbatim>\<open>env\<close> through the first manager makes it
  appear in the registry read through the second, and exiting it through the first
  removes it there.
\<close>

theorem registry_seen_by_other_instance:
  "manager_a \<noteq> manager_b
   \<and> registry manager_b linux_world ''env'' = None
   \<and> after_launch = snd (launch base_class manager_a linux_world ''env'' None None True Map.empty True)
   \<and> registry manager_b after_launch ''env'' = Some client
   \<and> registry manager_b launched_world ''env'' = Some client
   \<and> registry manager_b (snd (exit base_class manager_a launched_world (Inr ''env''))) ''env'' = None"
proof -
  have "manager_a \<noteq> manager_b"
    by (simp add: manager_a_def manager_b_def)
  moreover have "registry manager_b linux_world ''env'' = None"
    by (simp add: registry_def linux_world_def)
  moreover have "after_launch
      = snd (launch base_class manager_a linux_world ''env'' None None True Map.empty True)"
    by (rule after_launch_def)
  moreover have "registry manager_b after_launch ''env'' = Some client"
    by (simp add: registry_def first_launch_registers_client)
  moreover have "registry manager_b launched_world ''env'' = Some client"
    by (simp add: registry_def launched_world_def)
  moreover have "registry manager_b (snd (exit base_class manager_a launched_world (Inr ''env''))) ''env'' = None"
    by (simp add: exit_def registry_def environmentName_def concrete_defs)
  ultimately show ?thesis
    by blast
qed

section \<open>Reading the output of a script\<close>

lemma readLines_marker:
  "has_marker strip ls \<Longrightarrow> readLines strip ls outputs = None"
  by (induction ls arbitrary: outputs) (auto simp: has_marker_def keep_line_def Let_def)

lemma readLines_no_marker:
  "\<not> has_marker strip ls \<Longrightarrow> readLines strip ls outputs = Some (outputs @ map (keep_line strip) ls)"
  by (induction ls arbitrary: outputs) (auto simp: has_marker_def keep_line_def Let_def)

lemma getOutput_lines:
  "(case stdout p of None \<Rightarrow> Some [] | Some ls \<Rightarrow> readLines strip ls []) = readLines strip (output_lines p) []"
  by (simp add: output_lines_def split: option.splits)

lemma getOutput_succeeds:
  "\<not> has_marker strip (output_lines p) \<Longrightarrow> returncode p = 0 \<Longrightarrow>
     getOutput w p commands log strip = (Inr (map (keep_line strip) (output_lines p), 0), w)"
  by (simp add: getOutput_def getOutput_lines readLines_no_marker)

lemma commandString_length: "length (commandString commands) \<le> 156"
  by (simp add: commandString_def last150_def Let_def)

lemmas string_defs =
  py_str_def py_repr_def repr_char_def printable_def dq_def bslash_def newline_def
  commandString_def failed_message_def last150_def py_in_def sublist_code
  py_strip_def is_space_def keep_line_def has_marker_def output_lines_def Let_def

text \<open>
  Claim C4, as the code has it. When a kept line holds the marker \<^verbatim>\<open>CondaSystemExit\<close>
  the process is killed at once (the later lines are not read, the exit status is not
  awaited) and \<^verbatim>\<open>_getOutput\<close> raises; without the marker a status other than 0
  raises. Both raise the same exception, a plain \<^verbatim>\<open>Exception\<close> with the same message,
  which carries \<^verbatim>\<open>str(commands)\<close>: whole when it has at most 150 characters, otherwise
  its last 150 characters after the marker \<^verbatim>\<open>[...]\<close> and a space; nothing for an empty
  list.
\<close>

theorem getOutput_failures:
  "(has_marker strip (output_lines p) \<longrightarrow>
      getOutput w p commands log strip =
        (Inl (Exception (failed_message (commandString commands))), w\<lparr>killed := killed w @ [pid p]\<rparr>))
   \<and> (\<not> has_marker strip (output_lines p) \<and> returncode p \<noteq> 0 \<longrightarrow>
        getOutput w p commands log strip =
          (Inl (Exception (failed_message (commandString commands))), w))
   \<and> (\<not> has_marker strip (output_lines p) \<and> returncode p = 0 \<longrightarrow>
        getOutput w p commands log strip = (Inr (map (keep_line strip) (output_lines p), 0), w))
   \<and> commandString commands =
        (if commands = [] then ''''
         else if 150 < length (py_str commands)
         then ''[...] '' @ drop (length (py_str commands) - 150) (py_str commands)
         else py_str commands)
   \<and> length (commandString commands) \<le> 156"
  by (auto simp: getOutput_def getOutput_lines readLines_marker readLines_no_marker
        commandString_def last150_def Let_def)

theorem getOutput_failures_witness:
  \<open>has_marker True (output_lines fatal_process)
   \<and> getOutput linux_world fatal_process [''conda install x''] True True
       = (Inl (Exception ''The execution of the commands "['conda install x']" failed.''),
          linux_world\<lparr>killed := [8]\<rparr>)
   \<and> \<not> has_marker True (output_lines failing_process) \<and> returncode failing_process \<noteq> 0
   \<and> getOutput linux_world failing_process [''conda install x''] True True
       = (Inl (Exception ''The execution of the commands "['conda install x']" failed.''), linux_world)\<close>
  using getOutput_failures [of True fatal_process linux_world "[''conda install x'']" True]
        getOutput_failures [of True failing_process linux_world "[''conda install x'']" True]
  by (simp add: fatal_process_def failing_process_def string_defs linux_world_def)

text \<open>
  The claim says the two failures are distinct. They are equal: here for a process whose
  output holds the marker and one that ends with status 1, run for the same instruction.
\<close>

theorem getOutput_same_failure:
  \<open>fst (getOutput linux_world fatal_process [''conda install x''] True True)
     = fst (getOutput linux_world failing_process [''conda install x''] True True)
   \<and> fst (getOutput linux_world failing_process [''conda install x''] True True)
     = Inl (Exception ''The execution of the commands "['conda install x']" failed.'')\<close>
  by (simp add: getOutput_def fatal_process_def failing_process_def string_defs Let_def)

section \<open>Formatting and installing dependencies\<close>

lemma kept_specifiers_simps:
  "kept_specifiers cur [] = []"
  "kept_specifiers cur (e # es) = (if kept cur e then specifier e # kept_specifiers cur es else kept_specifiers cur es)"
  by (simp_all add: kept_specifiers_def)

lemma platform_admitted_kept:
  "platform_admitted cur (dep_platforms d) = kept cur (Structured d)"
  by (auto simp: platform_admitted_def kept_def split: platforms_spec.splits)

lemma formatLoop_rejected:
  "platformCondaFormat w = Inr cur \<Longrightarrow> list_ex (rejected cur) es \<Longrightarrow>
     \<exists>msg. formatLoop w True es fd fnd = Inl (IncompatibilityException msg)"
proof (induction es arbitrary: fd fnd)
  case Nil
  then show ?case by simp
next
  case (Cons e es)
  show ?case
  proof (cases e)
    case (Spec s)
    with Cons show ?thesis by (simp add: rejected_def)
  next
    case (Structured d)
    with Cons show ?thesis
      by (auto simp: rejected_def platform_admitted_def split: platforms_spec.splits)
  qed
qed

lemma formatLoop_accepted:
  "platformCondaFormat w = Inr cur \<Longrightarrow> \<not> list_ex (rejected cur) es \<Longrightarrow>
     \<exists>fd' fnd'. formatLoop w True es fd fnd = Inr (fd', fnd')
        \<and> set fd' \<union> set fnd' = set fd \<union> set fnd \<union> set (kept_specifiers cur es)"
proof (induction es arbitrary: fd fnd)
  case Nil
  then show ?case by (simp add: kept_specifiers_simps)
next
  case (Cons e es)
  show ?case
  proof (cases e)
    case (Spec s)
    with Cons.prems Cons.IH [of "fd @ [s]" fnd] show ?thesis
      by (auto simp: rejected_def kept_def specifier_def kept_specifiers_simps)
  next
    case (Structured d)
    with Cons.prems Cons.IH [of "fd @ [dep_name d]" fnd] Cons.IH [of fd "fnd @ [dep_name d]"]
      Cons.IH [of fd fnd]
    show ?thesis
      by (auto simp: rejected_def kept_def specifier_def platform_admitted_def
            kept_specifiers_simps split: platforms_spec.splits)
  qed
qed

lemma formatLoop_names:
  "formatLoop w r es fd fnd = Inr (fd', fnd') \<Longrightarrow>
     set fd' \<union> set fnd' \<subseteq> set fd \<union> set fnd \<union> specifier ` set es"
proof (induction es arbitrary: fd fnd)
  case Nil
  then show ?case by auto
next
  case (Cons e es)
  show ?case
  proof (cases e)
    case (Spec s)
    with Cons.prems Cons.IH [of "fd @ [s]" fnd] show ?thesis
      by (auto simp: specifier_def)
  next
    case (Structured d)
    with Cons.prems Cons.IH [of "fd @ [dep_name d]" fnd] Cons.IH [of fd "fnd @ [dep_name d]"]
      Cons.IH [of fd fnd]
    show ?thesis
      by (auto simp: specifier_def split: sum.splits if_splits)
  qed
qed

lemma py_in_quoted: "py_in ''::'' (quoted d) = py_in ''::'' d"
  by (auto simp: py_in_def quoted_def dq_def sublist_Cons_right sublist_append prefix_Cons
        suffix_def Cons_eq_append_conv append_eq_Cons_conv)


lemma formatDependencies_rejected:
  "platformCondaFormat w = Inr cur \<Longrightarrow> list_ex (rejected cur) (dependencies_get deps pm) \<Longrightarrow>
     \<exists>msg. formatDependencies w pm deps True = Inl (IncompatibilityException msg)"
  using formatLoop_rejected [of w cur "dependencies_get deps pm" "[]" "[]"]
  by (auto simp: formatDependencies_def)

lemma formatDependencies_accepted:
  "platformCondaFormat w = Inr cur \<Longrightarrow> \<not> list_ex (rejected cur) (dependencies_get deps pm) \<Longrightarrow>
     \<exists>ds dsn has. formatDependencies w pm deps True = Inr (ds, dsn, has)
        \<and> set ds \<union> set dsn = quoted ` set (kept_specifiers cur (dependencies_get deps pm))"
  using formatLoop_accepted [of w cur "dependencies_get deps pm" "[]" "[]"]
  by (auto simp: formatDependencies_def image_Un [symmetric] simp del: image_Un)

lemma formatDependencies_names:
  assumes "formatDependencies w pm deps r = Inr (ds, dsn, has)" and "x \<in> set ds \<union> set dsn"
  shows "\<exists>e \<in> set (dependencies_get deps pm). x = quoted (specifier e)"
proof -
  from assms(1) obtain a b where
    loop: "formatLoop w r (dependencies_get deps pm) [] [] = Inr (a, b)"
    and ds: "ds = map quoted a" "dsn = map quoted b"
    by (auto simp: formatDependencies_def split: sum.splits)
  from assms(2) ds obtain y where y: "y \<in> set a \<union> set b" "x = quoted y"
    by auto
  from formatLoop_names [OF loop] y(1) have "y \<in> specifier ` set (dependencies_get deps pm)"
    by auto
  with y(2) show ?thesis
    by auto
qed

lemma platformCondaFormat_error:
  "platformCondaFormat w = Inl e \<Longrightarrow> \<exists>k. e = KeyError k"
  by (auto simp: platformCondaFormat_def Let_def split: option.splits)

lemma formatLoop_error:
  "formatLoop w r es fd fnd = Inl e \<Longrightarrow>
     (\<exists>msg. e = IncompatibilityException msg) \<or> (\<exists>k. e = KeyError k)"
proof (induction es arbitrary: fd fnd)
  case Nil
  then show ?case by simp
next
  case (Cons x es)
  show ?case
  proof (cases x)
    case (Spec s)
    with Cons show ?thesis by simp
  next
    case (Structured d)
    with Cons.prems Cons.IH [of "fd @ [dep_name d]" fnd] Cons.IH [of fd "fnd @ [dep_name d]"]
      Cons.IH [of fd fnd]
    show ?thesis
      by (auto split: sum.splits if_splits dest: platformCondaFormat_error)
  qed
qed

lemma formatDependencies_error:
  "formatDependencies w pm deps r = Inl e \<Longrightarrow>
     (\<exists>msg. e = IncompatibilityException msg) \<or> (\<exists>k. e = KeyError k)"
  using formatLoop_error [of w r "dependencies_get deps pm" "[]" "[]" e]
  by (auto simp: formatDependencies_def split: sum.splits)

lemma installDependencies_error_keeps_state:
  "fst (installDependencies m w environment deps) = Inl e \<Longrightarrow>
     snd (installDependencies m w environment deps) = w"
  by (cases "formatDependencies w ''conda'' deps True"; cases "formatDependencies w ''pip'' deps True")
     (auto simp: installDependencies_def split: if_splits)

lemma pip_channel_test:
  assumes "platformCondaFormat w = Inr cur"
    and "\<not> list_ex (rejected cur) (dependencies_get deps ''pip'')"
    and "formatDependencies w ''pip'' deps True = Inr (pd, pdn, hp)"
  shows "list_ex (py_in ''::'') (pd @ pdn)
           = (\<exists>e \<in> set (dependencies_get deps ''pip''). kept cur e \<and> py_in ''::'' (specifier e))"
proof -
  from formatDependencies_accepted [OF assms(1) assms(2)] assms(3)
  have names: "set pd \<union> set pdn = quoted ` set (kept_specifiers cur (dependencies_get deps ''pip''))"
    by auto
  have "list_ex (py_in ''::'') (pd @ pdn) = (\<exists>x \<in> set pd \<union> set pdn. py_in ''::'' x)"
    by (auto simp: list_ex_iff)
  also have "\<dots> = (\<exists>x \<in> set (kept_specifiers cur (dependencies_get deps ''pip'')). py_in ''::'' x)"
    by (simp only: names) (simp add: py_in_quoted)
  also have "\<dots> = (\<exists>e \<in> set (dependencies_get deps ''pip''). kept cur e \<and> py_in ''::'' (specifier e))"
    by (auto simp: kept_specifiers_def)
  finally show ?thesis .
qed

lemma installDependencies_accepted:
  assumes "platformCondaFormat w = Inr cur"
    and "\<not> list_ex (rejected cur) (dependencies_get deps ''conda'')"
    and "\<not> list_ex (rejected cur) (dependencies_get deps ''pip'')"
    and "\<not> (\<exists>e \<in> set (dependencies_get deps ''pip''). kept cur e \<and> py_in ''::'' (specifier e))"
  shows "\<exists>instrs. installDependencies m w environment deps = (Inr instrs, invalidate m w environment)"
proof -
  from formatDependencies_accepted [OF assms(1) assms(2)]
  obtain cd cdn hc where c: "formatDependencies w ''conda'' deps True = Inr (cd, cdn, hc)"
    by blast
  from formatDependencies_accepted [OF assms(1) assms(3)]
  obtain pd pdn hp where p: "formatDependencies w ''pip'' deps True = Inr (pd, pdn, hp)"
    by blast
  from pip_channel_test [OF assms(1) assms(3) p] assms(4)
  have "\<not> list_ex (py_in ''::'') (pd @ pdn)"
    by simp
  then show ?thesis
    by (simp add: installDependencies_def c p)
qed

text \<open>
  Claim C3, as the code has it. \<^verbatim>\<open>installDependencies\<close> formats the conda list and
  the pip list first. When the platform is known and neither list has a rejected entry,
  it raises the configuration error exactly when a pip entry that is kept for the platform
  has \<^verbatim>\<open>::\<close> in its specifier. Whatever the input, it raises no such error when no pip
  specifier has \<^verbatim>\<open>::\<close>, and when it raises it the state is unchanged and no
  instruction is returned.
\<close>

theorem installDependencies_channel_check:
  "(platformCondaFormat w = Inr cur
      \<and> \<not> list_ex (rejected cur) (dependencies_get deps ''conda'')
      \<and> \<not> list_ex (rejected cur) (dependencies_get deps ''pip'') \<longrightarrow>
      (installDependencies m w environment deps = (Inl (PipChannelException pip_channel_message), w))
        = (\<exists>e \<in> set (dependencies_get deps ''pip''). kept cur e \<and> py_in ''::'' (specifier e)))
   \<and> ((\<forall>e \<in> set (dependencies_get deps ''pip''). \<not> py_in ''::'' (specifier e)) \<longrightarrow>
        (\<forall>msg. fst (installDependencies m w environment deps) \<noteq> Inl (PipChannelException msg)))
   \<and> (\<forall>msg. fst (installDependencies m w environment deps) = Inl (PipChannelException msg) \<longrightarrow>
        snd (installDependencies m w environment deps) = w)"
proof (intro conjI impI allI)
  assume h: "platformCondaFormat w = Inr cur
      \<and> \<not> list_ex (rejected cur) (dependencies_get deps ''conda'')
      \<and> \<not> list_ex (rejected cur) (dependencies_get deps ''pip'')"
  from h formatDependencies_accepted [of w cur deps "''conda''"]
  obtain cd cdn hc where c: "formatDependencies w ''conda'' deps True = Inr (cd, cdn, hc)"
    by blast
  from h formatDependencies_accepted [of w cur deps "''pip''"]
  obtain pd pdn hp where p: "formatDependencies w ''pip'' deps True = Inr (pd, pdn, hp)"
    by blast
  from h pip_channel_test [OF _ _ p, of cur]
  have "list_ex (py_in ''::'') (pd @ pdn)
          = (\<exists>e \<in> set (dependencies_get deps ''pip''). kept cur e \<and> py_in ''::'' (specifier e))"
    by blast
  then show "(installDependencies m w environment deps = (Inl (PipChannelException pip_channel_message), w))
        = (\<exists>e \<in> set (dependencies_get deps ''pip''). kept cur e \<and> py_in ''::'' (specifier e))"
    by (simp add: installDependencies_def c p)
next
  fix msg
  assume free: "\<forall>e \<in> set (dependencies_get deps ''pip''). \<not> py_in ''::'' (specifier e)"
  show "fst (installDependencies m w environment deps) \<noteq> Inl (PipChannelException msg)"
  proof
    assume raised: "fst (installDependencies m w environment deps) = Inl (PipChannelException msg)"
    then obtain pd pdn hp where p: "formatDependencies w ''pip'' deps True = Inr (pd, pdn, hp)"
      and bad: "list_ex (py_in ''::'') (pd @ pdn)"
      by (cases "formatDependencies w ''conda'' deps True";
          cases "formatDependencies w ''pip'' deps True")
         (auto simp: installDependencies_def split: if_splits dest: formatDependencies_error)
    from bad obtain x where x: "x \<in> set pd \<union> set pdn" "py_in ''::'' x"
      by (auto simp: list_ex_iff)
    with formatDependencies_names [OF p, of x] obtain e where
      "e \<in> set (dependencies_get deps ''pip'')" "x = quoted (specifier e)"
      by auto
    with x free show False
      by (simp add: py_in_quoted)
  qed
next
  fix msg
  assume "fst (installDependencies m w environment deps) = Inl (PipChannelException msg)"
  then show "snd (installDependencies m w environment deps) = w"
    by (rule installDependencies_error_keeps_state)
qed

lemmas format_defs =
  installDependencies_def installDepsCommands_def formatDependencies_def dependencies_get_def platformCondaFormat_def
  platform_admitted_def quoted_def dq_def py_in_def sublist_code invalidate_def registry_def
  getProxyEnvironmentVariablesCommands_def getProxyString_def condaBin_def
  specifier_def rejected_def kept_def Let_def

theorem installDependencies_channel_check_witness:
  "platformCondaFormat linux_world = Inr ''linux-64''
   \<and> installDependencies manager_a linux_world ''env'' deps_pip_channel
       = (Inl (PipChannelException pip_channel_message), linux_world)
   \<and> fst (installDependencies manager_a linux_world ''env'' deps_plain)
       \<noteq> Inl (PipChannelException pip_channel_message)"
  using installDependencies_channel_check
          [of linux_world "''linux-64''" deps_pip_channel manager_a "''env''"]
        installDependencies_channel_check
          [of linux_world "''linux-64''" deps_plain manager_a "''env''"]
  by (simp add: format_defs deps_pip_channel_def deps_plain_def linux_world_def)

text \<open>
  The claim says the error is raised when any pip specifier has the channel qualifier.
  An optional structured entry for another platform is dropped before the test: with
  \<^verbatim>\<open>conda-forge::pyqt\<close> for \<^verbatim>\<open>osx-arm64\<close> only, on \<^verbatim>\<open>linux-64\<close>, the call returns
  an empty list of instructions. The older copy, whose test does not read the name of a
  structured entry, returns the same.
\<close>

theorem installDependencies_channel_unnoticed:
  "py_in ''::'' ''conda-forge::pyqt''
   \<and> installDependencies manager_a linux_world ''env'' deps_optional_channel
       = (Inr [], linux_world)
   \<and> installDependencies_legacy manager_a linux_world ''env'' deps_optional_channel
       = (Inr [], linux_world)"
  by (simp add: format_defs installDependencies_legacy_def installDepsCommands_legacy_def
        deps_optional_channel_def linux_world_def manager_a_def)

text \<open>
  In the older copy a mapping without a \<^verbatim>\<open>pip\<close> key raises \<^verbatim>\<open>KeyError\<close>, and a kept
  structured entry whose name has the qualifier passes the test.
\<close>

lemma installDependencies_legacy_examples:
  "fst (installDependencies_legacy manager_a linux_world ''env'' deps_conda_only) = Inl (KeyError ''pip'')"
  "fst (installDependencies_legacy manager_a linux_world ''env'' deps_pip_channel)
     = Inl (PipChannelException pip_channel_message_legacy)"
  by (simp_all add: installDependencies_legacy_def deps_conda_only_def deps_pip_channel_def
        py_in_def sublist_code)

section \<open>create\<close>

lemma platformCondaFormat_supported:
  "platformCondaFormat w = Inr cur \<Longrightarrow> system w \<in> set [''Windows'', ''Linux'', ''Darwin'']"
  by (auto simp: platformCondaFormat_def Let_def split: option.splits if_splits)

lemma platformCondaFormat_mkdir [simp]:
  "platformCondaFormat (mkdir w p) = platformCondaFormat w"
  by (simp add: platformCondaFormat_def mkdir_def)

lemma mkdir_fields [simp]:
  "system (mkdir w p) = system w" "machine (mkdir w p) = machine w"
  "executed (mkdir w p) = executed w" "killed (mkdir w p) = killed w"
  "environments (mkdir w p) = environments w" "spawn (mkdir w p) = spawn w"
  "python_version (mkdir w p) = python_version w"
  by (simp_all add: mkdir_def)

lemma installCondaIfNecessary_world:
  "snd (installCondaIfNecessary m w) = w \<or> snd (installCondaIfNecessary m w) = mkdir w (condaPath m)"
  by (simp add: installCondaIfNecessary_def getCondaPaths_def Let_def)

lemma installCondaIfNecessary_result:
  "(\<exists>cmds. fst (installCondaIfNecessary m w) = Inr cmds)
   \<or> (system w \<notin> set [''Windows'', ''Linux'', ''Darwin'']
       \<and> installCondaIfNecessary m w
           = (Inl (Exception (''Platform '' @ system w @ '' is not supported.'')), w))"
  by (simp add: installCondaIfNecessary_def getCondaPaths_def Let_def)

lemma activateConda_world:
  "snd (activateConda m w) = w \<or> snd (activateConda m w) = mkdir w (condaPath m)"
  using installCondaIfNecessary_world [of m w]
  by (auto simp: activateConda_def split: prod.splits sum.splits)

lemma activateConda_result:
  "(\<exists>cmds. fst (activateConda m w) = Inr cmds)
   \<or> (system w \<notin> set [''Windows'', ''Linux'', ''Darwin'']
       \<and> activateConda m w
           = (Inl (Exception (''Platform '' @ system w @ '' is not supported.'')), w))"
  using installCondaIfNecessary_result [of m w]
  by (auto simp: activateConda_def split: prod.splits sum.splits)


lemma formatLoop_same_platform:
  "platformCondaFormat w' = platformCondaFormat w \<Longrightarrow>
     formatLoop w' r es fd fnd = formatLoop w r es fd fnd"
proof (induction es arbitrary: fd fnd)
  case Nil
  then show ?case by simp
next
  case (Cons e es)
  then show ?case by (cases e) (auto split: sum.splits)
qed


lemma getProxyEnvironmentVariablesCommands_mkdir:
  "getProxyEnvironmentVariablesCommands m (mkdir w p) = getProxyEnvironmentVariablesCommands m w"
  by (simp add: getProxyEnvironmentVariablesCommands_def isWindows_def split: option.splits)

lemma installDepsCommands_mkdir:
  "installDepsCommands m (mkdir w p) environment cd cdn hc pd pdn hp
     = installDepsCommands m w environment cd cdn hc pd pdn hp"
  by (simp only: installDepsCommands_def getProxyEnvironmentVariablesCommands_mkdir)


lemma formatDependencies_mkdir:
  "formatDependencies (mkdir w p) pm deps r = formatDependencies w pm deps r"
  by (simp add: formatDependencies_def formatLoop_same_platform [of "mkdir w p" w])

lemma installDependencies_mkdir:
  "fst (installDependencies m (mkdir w p) environment deps) = fst (installDependencies m w environment deps)"
  by (cases "formatDependencies w ''conda'' deps True"; cases "formatDependencies w ''pip'' deps True")
     (auto simp: installDependencies_def formatDependencies_mkdir installDepsCommands_mkdir)

lemma installDependencies_world:
  "snd (installDependencies m w environment deps) = w
   \<or> snd (installDependencies m w environment deps) = invalidate m w environment"
  by (cases "formatDependencies w ''conda'' deps True"; cases "formatDependencies w ''pip'' deps True")
     (auto simp: installDependencies_def)



lemma invalidate_fields [simp]:
  "system (invalidate m w n) = system w" "machine (invalidate m w n) = machine w"
  "executed (invalidate m w n) = executed w" "killed (invalidate m w n) = killed w"
  "spawn (invalidate m w n) = spawn w" "python_version (invalidate m w n) = python_version w"
  by (simp_all add: invalidate_def split: option.splits)

lemma installDependencies_rejected:
  assumes "platformCondaFormat w = Inr cur"
    and "list_ex (rejected cur) (dependencies_get deps ''conda'' @ dependencies_get deps ''pip'')"
  shows "\<exists>msg. installDependencies m w environment deps = (Inl (IncompatibilityException msg), w)"
proof (cases "list_ex (rejected cur) (dependencies_get deps ''conda'')")
  case True
  from formatDependencies_rejected [OF assms(1) True] show ?thesis
    by (auto simp: installDependencies_def)
next
  case False
  with assms(2) have pip: "list_ex (rejected cur) (dependencies_get deps ''pip'')"
    by simp
  from formatDependencies_accepted [OF assms(1) False]
       formatDependencies_rejected [OF assms(1) pip]
  show ?thesis
    by (auto simp: installDependencies_def)
qed

lemma getOutput_world:
  "executed (snd (getOutput w p commands log strip)) = executed w"
  by (simp add: getOutput_def split: option.splits)

lemma getOutput_error:
  "fst (getOutput w p commands log strip) = Inl e \<Longrightarrow>
     e = Exception (failed_message (commandString commands))"
  by (auto simp: getOutput_def split: option.splits if_splits)

lemma executeCommandAndGetOutput_executed:
  "executed (snd (executeCommandAndGetOutput w commands env True log))
     = executed w @ [insertCommandErrorChecks w commands]"
  by (simp add: executeCommandAndGetOutput_def executeCommands_def getOutput_world Let_def)

lemma executeCommandAndGetOutput_error:
  "fst (executeCommandAndGetOutput w commands env check log) = Inl e \<Longrightarrow>
     e = Exception (failed_message (commandString commands))"
  by (auto simp: executeCommandAndGetOutput_def executeCommands_def Let_def dest: getOutput_error)

lemma executeCommandAndGetOutput_succeeds:
  "succeeds (spawn w (insertCommandErrorChecks w commands) env) \<Longrightarrow>
     \<exists>out. fst (executeCommandAndGetOutput w commands env True log) = Inr out"
  by (simp add: executeCommandAndGetOutput_def executeCommands_def succeeds_def Let_def
        getOutput_succeeds)

lemma insertCommandErrorChecks_keeps:
  "c \<in> set commands \<Longrightarrow> c \<in> set (insertCommandErrorChecks w commands)"
  by (auto simp: insertCommandErrorChecks_def Let_def)

lemma installDependencies_error_kind:
  "fst (installDependencies m w environment deps) = Inl err \<Longrightarrow>
     (\<exists>msg. err = IncompatibilityException msg) \<or> (\<exists>k. err = KeyError k)
     \<or> err = PipChannelException pip_channel_message"
  by (cases "formatDependencies w ''conda'' deps True"; cases "formatDependencies w ''pip'' deps True")
     (auto simp: installDependencies_def split: if_splits dest: formatDependencies_error)

lemma activateConda_frame:
  "executed (snd (activateConda m w)) = executed w"
  "killed (snd (activateConda m w)) = killed w"
  "environments (snd (activateConda m w)) = environments w"
  "spawn (snd (activateConda m w)) = spawn w"
  "platformCondaFormat (snd (activateConda m w)) = platformCondaFormat w"
  using activateConda_world [of m w] by auto

lemma installDependencies_frame:
  "executed (snd (installDependencies m w environment deps)) = executed w"
  "killed (snd (installDependencies m w environment deps)) = killed w"
  "spawn (snd (installDependencies m w environment deps)) = spawn w"
  using installDependencies_world [of m w environment deps] by auto

lemma installDependencies_after_activate:
  "fst (installDependencies m (snd (activateConda m w)) environment deps)
     = fst (installDependencies m w environment deps)"
  using activateConda_world [of m w] by (auto simp: installDependencies_mkdir)

text \<open>\<^verbatim>\<open>create\<close> without a reference environment, one step at a time.\<close>

lemma create_exists:
  "environmentExists m w environment \<Longrightarrow>
     create m w environment deps aic aac None eie =
       (if eie then (Inl (Exception (''Error: the environment '' @ environment @ '' already exists.'')), w)
        else (Inr True, w))"
  by (simp add: create_def)

lemma create_version_rejected:
  "\<not> environmentExists m w environment \<Longrightarrow> version_rejected (pythonVersion deps) \<Longrightarrow>
     create m w environment deps aic aac None eie =
       (Inl (Exception ''Python version must be greater than 3.8''), w)"
  by (simp add: create_def)

lemma create_activate_fails:
  "\<not> environmentExists m w environment \<Longrightarrow> \<not> version_rejected (pythonVersion deps) \<Longrightarrow>
   activateConda m w = (Inl e, w2) \<Longrightarrow>
     create m w environment deps aic aac None eie = (Inl e, w2)"
  by (simp add: create_def)

lemma create_install_fails:
  "\<not> environmentExists m w environment \<Longrightarrow> \<not> version_rejected (pythonVersion deps) \<Longrightarrow>
   activateConda m w = (Inr activate, w2) \<Longrightarrow>
   installDependencies m w2 environment deps = (Inl e, w3) \<Longrightarrow>
     create m w environment deps aic aac None eie = (Inl e, w3)"
  by (simp add: create_def)

lemma create_runs:
  "\<not> environmentExists m w environment \<Longrightarrow> \<not> version_rejected (pythonVersion deps) \<Longrightarrow>
   activateConda m w = (Inr activate, w2) \<Longrightarrow>
   installDependencies m w2 environment deps = (Inr instrs, w3) \<Longrightarrow>
     create m w environment deps aic aac None eie =
       (case executeCommandAndGetOutput w3
               (activate @ [create_instruction m w environment deps] @ instrs
                  @ getCommandsForCurrentPlatform w3 aic @ getCommandsForCurrentPlatform w3 aac)
               None True True of
          (Inl e, w4) \<Rightarrow> (Inl e, w4)
        | (Inr out, w4) \<Rightarrow> (Inr True, w4))"
  by (simp add: create_def create_instruction_def)

lemmas create_defs =
  create_def environmentExists_def path_div_def pythonVersion_def remove_char_def
  version_rejected_def match_here_def is_digit_def py_int_def
  activateConda_def installCondaIfNecessary_def getCondaPaths_def shellHook_def
  setupCondaChannels_def getCommandsForCurrentPlatform_def getPlatformCommonName_def
  py_lower_def lower_char_def executeCommandAndGetOutput_def executeCommands_def
  getOutput_def insertCommandErrorChecks_def isWindows_def

text \<open>
  Claim C1, as the code has it. Let the current platform be known and let the conda or the
  pip list hold a rejected entry. Then \<^verbatim>\<open>installDependencies\<close> raises
  \<^verbatim>\<open>IncompatibilityException\<close> and leaves the state unchanged. \<^verbatim>\<open>create\<close>, called
  without a reference environment for a name that does not exist on disk and with a Python
  version that passes its check, raises \<^verbatim>\<open>IncompatibilityException\<close> too: no script
  has been started, no process killed, and the registry is as before.
\<close>

theorem incompatible_entry_fails_first:
  assumes "platformCondaFormat w = Inr cur"
    and "list_ex (rejected cur) (dependencies_get deps ''conda'' @ dependencies_get deps ''pip'')"
  shows "(\<exists>msg. installDependencies m w environment deps = (Inl (IncompatibilityException msg), w))
       \<and> (\<not> environmentExists m w environment \<and> \<not> version_rejected (pythonVersion deps) \<longrightarrow>
            (\<exists>msg w'. create m w environment deps aic aac None eie
                         = (Inl (IncompatibilityException msg), w')
                \<and> executed w' = executed w \<and> killed w' = killed w
                \<and> environments w' = environments w))"
proof (intro conjI impI)
  show "\<exists>msg. installDependencies m w environment deps = (Inl (IncompatibilityException msg), w)"
    by (rule installDependencies_rejected [OF assms])
next
  assume h: "\<not> environmentExists m w environment \<and> \<not> version_rejected (pythonVersion deps)"
  obtain ra w2 where a: "activateConda m w = (ra, w2)"
    by (cases "activateConda m w")
  from assms(1) have "system w \<in> set [''Windows'', ''Linux'', ''Darwin'']"
    by (rule platformCondaFormat_supported)
  with activateConda_result [of m w] a obtain activate where ra: "ra = Inr activate"
    by auto
  from a have w2: "w2 = snd (activateConda m w)"
    by simp
  have "platformCondaFormat w2 = Inr cur"
    by (simp add: w2 activateConda_frame assms(1))
  from installDependencies_rejected [OF this assms(2), of m environment]
  obtain msg where "installDependencies m w2 environment deps = (Inl (IncompatibilityException msg), w2)"
    by blast
  with h a ra have "create m w environment deps aic aac None eie = (Inl (IncompatibilityException msg), w2)"
    by (simp add: create_install_fails)
  then show "\<exists>msg w'. create m w environment deps aic aac None eie
                         = (Inl (IncompatibilityException msg), w')
                \<and> executed w' = executed w \<and> killed w' = killed w
                \<and> environments w' = environments w"
    by (auto simp: w2 activateConda_frame)
qed

theorem incompatible_entry_fails_first_witness:
  "platformCondaFormat linux_world = Inr ''linux-64''
   \<and> list_ex (rejected ''linux-64'')
         (dependencies_get deps_incompatible ''conda'' @ dependencies_get deps_incompatible ''pip'')
   \<and> installDependencies manager_a linux_world ''env'' deps_incompatible
       = (Inl (IncompatibilityException
            ''Error: the library cudatoolkit is not available on this platform (linux-64). It is only available on the following platforms: win-64.''),
          linux_world)
   \<and> create manager_a linux_world ''env'' deps_incompatible Map.empty Map.empty None False
       = (Inl (IncompatibilityException
            ''Error: the library cudatoolkit is not available on this platform (linux-64). It is only available on the following platforms: win-64.''),
          linux_world)
   \<and> executed linux_world = []"
  using incompatible_entry_fails_first
          [of linux_world "''linux-64''" deps_incompatible manager_a "''env''" Map.empty Map.empty False]
  by (simp add: create_defs format_defs incompatibility_message_def platformsString_def
        deps_incompatible_def concrete_defs)

text \<open>
  The claim has \<^verbatim>\<open>create\<close> fail for every such specification. When the environment
  already exists on disk, \<^verbatim>\<open>create\<close> returns \<open>True\<close> before it looks at the
  dependencies.
\<close>

theorem existing_environment_hides_incompatibility:
  "platformCondaFormat existing_world = Inr ''linux-64''
   \<and> list_ex (rejected ''linux-64'')
         (dependencies_get deps_incompatible ''conda'' @ dependencies_get deps_incompatible ''pip'')
   \<and> create manager_a existing_world ''env'' deps_incompatible Map.empty Map.empty None False
       = (Inr True, existing_world)"
  by (simp add: create_defs format_defs deps_incompatible_def existing_world_def concrete_defs)

lemma executeCommandAndGetOutput_message:
  "fst (executeCommandAndGetOutput w commands env check log)
     \<noteq> Inl (Exception ''Python version must be greater than 3.8'')"
  using executeCommandAndGetOutput_error [of w commands env check log]
  by (auto simp: failed_message_def)

text \<open>
  Claim C10, as the code has it. \<^verbatim>\<open>create\<close>, called without a reference environment
  for a name that does not exist on disk, raises
  \<^verbatim>\<open>Python version must be greater than 3.8\<close> and leaves the state unchanged when the
  \<^verbatim>\<open>python\<close> entry is rejected: when the first \<^verbatim>\<open>digits.digits\<close> in it has a first
  number below 3 or a second number below 9. So \<^verbatim>\<open>4.2\<close> is rejected. With no such pair
  in the entry, \<^verbatim>\<open>create\<close> does not raise this exception.
\<close>

theorem python_version_check:
  "(\<not> environmentExists m w environment \<and> version_rejected (pythonVersion deps) \<longrightarrow>
      create m w environment deps aic aac None eie
        = (Inl (Exception ''Python version must be greater than 3.8''), w))
   \<and> version_rejected v
       = (\<exists>g1 g2. re_search_version v = Some (g1, g2) \<and> (py_int g1 < 3 \<or> py_int g2 < 9))
   \<and> version_rejected ''4.2''
   \<and> (re_search_version (pythonVersion deps) = None \<longrightarrow>
        fst (create m w environment deps aic aac None eie)
          \<noteq> Inl (Exception ''Python version must be greater than 3.8''))"
proof (intro conjI impI)
  assume "\<not> environmentExists m w environment \<and> version_rejected (pythonVersion deps)"
  then show "create m w environment deps aic aac None eie
        = (Inl (Exception ''Python version must be greater than 3.8''), w)"
    by (simp add: create_version_rejected)
next
  show "version_rejected v
       = (\<exists>g1 g2. re_search_version v = Some (g1, g2) \<and> (py_int g1 < 3 \<or> py_int g2 < 9))"
    by (auto simp: version_rejected_def split: option.splits)
next
  show "version_rejected ''4.2''"
    by (simp add: version_rejected_def match_here_def is_digit_def py_int_def)
next
  assume none: "re_search_version (pythonVersion deps) = None"
  then have ok: "\<not> version_rejected (pythonVersion deps)"
    by (simp add: version_rejected_def)
  show "fst (create m w environment deps aic aac None eie)
          \<noteq> Inl (Exception ''Python version must be greater than 3.8'')"
  proof (cases "environmentExists m w environment")
    case True
    then show ?thesis
      by (simp add: create_exists)
  next
    case False
    obtain ra w2 where a: "activateConda m w = (ra, w2)"
      by (cases "activateConda m w")
    show ?thesis
    proof (cases ra)
      case (Inl e)
      with activateConda_result [of m w] a
      have "e = Exception (''Platform '' @ system w @ '' is not supported.'')"
        by auto
      with False ok a Inl show ?thesis
        by (simp add: create_activate_fails)
    next
      case (Inr activate)
      obtain ri w3 where i: "installDependencies m w2 environment deps = (ri, w3)"
        by (cases "installDependencies m w2 environment deps")
      show ?thesis
      proof (cases ri)
        case (Inl e)
        with installDependencies_error_kind [of m w2 environment deps e] i
        have "e \<noteq> Exception ''Python version must be greater than 3.8''"
          by auto
        with False ok a Inr i Inl show ?thesis
          by (simp add: create_install_fails)
      next
        case inst: (Inr instrs)
        let ?commands = "activate @ [create_instruction m w environment deps] @ instrs
                  @ getCommandsForCurrentPlatform w3 aic @ getCommandsForCurrentPlatform w3 aac"
        obtain re w4 where e: "executeCommandAndGetOutput w3 ?commands None True True = (re, w4)"
          by (cases "executeCommandAndGetOutput w3 ?commands None True True")
        with executeCommandAndGetOutput_message [of w3 ?commands None True True]
        have "re \<noteq> Inl (Exception ''Python version must be greater than 3.8'')"
          by simp
        with False ok a Inr i inst e show ?thesis
          by (cases re) (simp_all add: create_runs)
      qed
    qed
  qed
qed

theorem python_version_check_witness:
  "\<not> environmentExists manager_a linux_world ''env''
   \<and> version_rejected (pythonVersion (deps_python ''3.7''))
   \<and> create manager_a linux_world ''env'' (deps_python ''3.7'') Map.empty Map.empty None False
       = (Inl (Exception ''Python version must be greater than 3.8''), linux_world)
   \<and> create manager_a linux_world ''env'' (deps_python ''4.2'') Map.empty Map.empty None False
       = (Inl (Exception ''Python version must be greater than 3.8''), linux_world)
   \<and> re_search_version (pythonVersion (deps_python ''3'')) = None
   \<and> fst (create manager_a linux_world ''env'' (deps_python ''3'') Map.empty Map.empty None False)
       = Inr True"
  using python_version_check
          [of manager_a linux_world "''env''" "deps_python ''3.7''" Map.empty Map.empty False]
        python_version_check
          [of manager_a linux_world "''env''" "deps_python ''3''" Map.empty Map.empty False]
  by (simp add: create_defs format_defs string_defs deps_python_def concrete_defs)

text \<open>
  The claim has \<^verbatim>\<open>create\<close> raise for every such specification. When the environment
  already exists on disk, \<^verbatim>\<open>create\<close> returns \<open>True\<close> before the version is
  looked at.
\<close>

theorem existing_environment_skips_version_check:
  "version_rejected (pythonVersion (deps_python ''3.7''))
   \<and> create manager_a existing_world ''env'' (deps_python ''3.7'') Map.empty Map.empty None False
       = (Inr True, existing_world)"
  by (simp add: create_defs deps_python_def existing_world_def concrete_defs)

lemma getOutput_fails:
  "has_marker strip (output_lines p) \<or> returncode p \<noteq> 0 \<Longrightarrow>
     fst (getOutput w p commands log strip) = Inl (Exception (failed_message (commandString commands)))"
  by (cases "has_marker strip (output_lines p)")
     (auto simp: getOutput_def getOutput_lines readLines_marker readLines_no_marker)

lemma executeCommandAndGetOutput_returns:
  "(\<exists>out. fst (executeCommandAndGetOutput w commands env True log) = Inr out)
     = succeeds (spawn w (insertCommandErrorChecks w commands) env)"
proof (cases "succeeds (spawn w (insertCommandErrorChecks w commands) env)")
  case True
  from executeCommandAndGetOutput_succeeds [OF True] True show ?thesis
    by blast
next
  case False
  then have "fst (executeCommandAndGetOutput w commands env True log)
               = Inl (Exception (failed_message (commandString commands)))"
    by (auto simp: executeCommandAndGetOutput_def executeCommands_def succeeds_def Let_def
          intro: getOutput_fails)
  with False show ?thesis
    by simp
qed

text \<open>\<^verbatim>\<open>create\<close> for an environment that is not on disk, in terms of the script.\<close>

lemma create_script_None:
  assumes "\<not> environmentExists m w environment" and "\<not> version_rejected (pythonVersion deps)"
    and "create_script m w environment deps aic aac = None"
  shows "\<exists>e. fst (create m w environment deps aic aac None eie) = Inl e"
proof -
  obtain ra w2 where a: "activateConda m w = (ra, w2)"
    by (cases "activateConda m w")
  show ?thesis
  proof (cases ra)
    case (Inl e)
    with assms a show ?thesis
      by (simp add: create_activate_fails)
  next
    case (Inr activate)
    obtain ri w3 where i: "installDependencies m w2 environment deps = (ri, w3)"
      by (cases "installDependencies m w2 environment deps")
    from assms(3) a Inr i obtain e where "ri = Inl e"
      by (cases ri) (auto simp: create_script_def)
    with assms a Inr i show ?thesis
      by (simp add: create_install_fails)
  qed
qed

lemma create_script_Some:
  assumes absent: "\<not> environmentExists m w environment"
    and ok: "\<not> version_rejected (pythonVersion deps)"
    and script: "create_script m w environment deps aic aac = Some script"
  shows "executed (snd (create m w environment deps aic aac None eie)) = executed w @ [script]"
    and "(fst (create m w environment deps aic aac None eie) = Inr True)
           = succeeds (spawn w script None)"
    and "\<exists>instrs. fst (installDependencies m w environment deps) = Inr instrs
           \<and> set instrs \<subseteq> set script"
    and "create_instruction m w environment deps \<in> set script"
    and "\<forall>b. fst (create m w environment deps aic aac None eie) = Inr b \<longrightarrow> b"
proof -
  obtain ra w2 where a0: "activateConda m w = (ra, w2)"
    by (cases "activateConda m w")
  from script a0 obtain activate where a: "activateConda m w = (Inr activate, w2)"
    by (cases ra) (auto simp: create_script_def)
  obtain ri w3 where i0: "installDependencies m w2 environment deps = (ri, w3)"
    by (cases "installDependencies m w2 environment deps")
  from script a i0 obtain instrs where i: "installDependencies m w2 environment deps = (Inr instrs, w3)"
    by (cases ri) (auto simp: create_script_def)
  let ?commands = "activate @ [create_instruction m w environment deps] @ instrs
          @ getCommandsForCurrentPlatform w3 aic @ getCommandsForCurrentPlatform w3 aac"
  have s: "script = insertCommandErrorChecks w3 ?commands"
    using script a i by (simp add: create_script_def)
  have w2: "w2 = snd (activateConda m w)" and w3: "w3 = snd (installDependencies m w2 environment deps)"
    using a i by simp_all
  have frame: "spawn w3 = spawn w" "executed w3 = executed w"
    by (simp_all add: w3 installDependencies_frame w2 activateConda_frame)
  note run = create_runs [OF absent ok a i, of aic aac eie]
  obtain re w4 where e: "executeCommandAndGetOutput w3 ?commands None True True = (re, w4)"
    by (cases "executeCommandAndGetOutput w3 ?commands None True True")
  have c: "create m w environment deps aic aac None eie
             = (case re of Inl e \<Rightarrow> (Inl e, w4) | Inr out \<Rightarrow> (Inr True, w4))"
    using run e by (cases re) simp_all
  have "executed w4 = executed w3 @ [script]"
    using executeCommandAndGetOutput_executed [of w3 ?commands None True] e by (simp add: s)
  then show "executed (snd (create m w environment deps aic aac None eie)) = executed w @ [script]"
    by (cases re) (simp_all add: c frame)
  have "(\<exists>out. re = Inr out) = succeeds (spawn w3 script None)"
    using executeCommandAndGetOutput_returns [of w3 ?commands None True] e by (simp add: s)
  then show "(fst (create m w environment deps aic aac None eie) = Inr True)
           = succeeds (spawn w script None)"
    by (cases re) (simp_all add: c frame)
  have "fst (installDependencies m w environment deps) = Inr instrs"
    using i installDependencies_after_activate [of m w environment deps] by (simp add: w2)
  moreover have "set instrs \<subseteq> set script"
    by (auto simp: s intro: insertCommandErrorChecks_keeps)
  ultimately show "\<exists>instrs. fst (installDependencies m w environment deps) = Inr instrs
           \<and> set instrs \<subseteq> set script"
    by blast
  show "create_instruction m w environment deps \<in> set script"
    unfolding s by (rule insertCommandErrorChecks_keeps) simp
  show "\<forall>b. fst (create m w environment deps aic aac None eie) = Inr b \<longrightarrow> b"
    by (cases re) (simp_all add: c)
qed

lemma create_script_accepted:
  assumes p: "platformCondaFormat w = Inr cur"
    and "\<not> list_ex (rejected cur) (dependencies_get deps ''conda'')"
    and "\<not> list_ex (rejected cur) (dependencies_get deps ''pip'')"
    and "\<not> (\<exists>e \<in> set (dependencies_get deps ''pip''). kept cur e \<and> py_in ''::'' (specifier e))"
  shows "\<exists>script. create_script m w environment deps aic aac = Some script"
proof -
  obtain ra w2 where a: "activateConda m w = (ra, w2)"
    by (cases "activateConda m w")
  from p have "system w \<in> set [''Windows'', ''Linux'', ''Darwin'']"
    by (auto dest: platformCondaFormat_supported)
  with activateConda_result [of m w] a obtain activate where ra: "ra = Inr activate"
    by auto
  have "platformCondaFormat w2 = Inr cur"
    using a p activateConda_frame(5) [of m w] by simp
  from installDependencies_accepted [OF this assms(2-4), of m environment]
  obtain instrs where "installDependencies m w2 environment deps = (Inr instrs, invalidate m w2 environment)"
    by blast
  with a ra show ?thesis
    by (simp add: create_script_def)
qed

text \<open>
  \<^verbatim>\<open>create\<close> in the older copy: the same two answers for an environment on disk, and no
  return for an absent one when the specification has no \<^verbatim>\<open>pip\<close> key.
\<close>

lemma create_legacy_exists:
  "environmentExists m w environment \<Longrightarrow>
     create_legacy m w environment deps aic aac None eie =
       (if eie then (Inl (Exception (''Error: the environment '' @ environment @ '' already exists.'')), w)
        else (Inr True, w))"
  by (simp add: create_legacy_def)

lemma create_legacy_without_pip:
  "\<not> environmentExists m w environment \<Longrightarrow> \<not> version_rejected (pythonVersion deps) \<Longrightarrow>
   pip deps = None \<Longrightarrow>
     \<exists>e. fst (create_legacy m w environment deps aic aac None eie) = Inl e"
  by (cases "activateConda_legacy m w")
     (auto simp: create_legacy_def installDependencies_legacy_def split: sum.splits)

text \<open>
  Claim C5, as the code has it, for \<^verbatim>\<open>create\<close> without a reference environment.

  When the environment exists on disk, \<^verbatim>\<open>create\<close> returns \<open>True\<close> with the state
  unchanged, or raises the \<^verbatim>\<open>already exists\<close> error when \<^verbatim>\<open>errorIfExists\<close> is set;
  this holds in both copies of the manager.

  When the environment does not exist, in the current copy,
  \<^verbatim>\<open>src/cema/environment_manager.py\<close> (the older copy,
  \<^verbatim>\<open>cema/environment_manager.py\<close>, is \<open>create_legacy\<close>): a \<^verbatim>\<open>create\<close> that
  returns has returned
  \<open>True\<close> and has started exactly one script, the one of \<open>create_script\<close>, which
  succeeded and holds the create instruction and every install instruction. When the
  version check passes, the platform is known, no entry is rejected and no kept pip
  specifier has a channel qualifier, \<^verbatim>\<open>create\<close> builds that script, starts exactly it,
  and returns \<open>True\<close> if and only if the script succeeds.
\<close>

theorem create_existing_or_new:
  "(environmentExists m w environment \<and> \<not> eie \<longrightarrow>
      create m w environment deps aic aac None eie = (Inr True, w)
      \<and> create_legacy m w environment deps aic aac None eie = (Inr True, w))
   \<and> (environmentExists m w environment \<and> eie \<longrightarrow>
        create m w environment deps aic aac None eie
          = (Inl (Exception (''Error: the environment '' @ environment @ '' already exists.'')), w)
        \<and> create_legacy m w environment deps aic aac None eie
          = (Inl (Exception (''Error: the environment '' @ environment @ '' already exists.'')), w))
   \<and> (\<not> environmentExists m w environment \<longrightarrow>
        (\<forall>b w'. create m w environment deps aic aac None eie = (Inr b, w') \<longrightarrow>
           b \<and> (\<exists>script instrs. create_script m w environment deps aic aac = Some script
                   \<and> succeeds (spawn w script None)
                   \<and> executed w' = executed w @ [script]
                   \<and> create_instruction m w environment deps \<in> set script
                   \<and> fst (installDependencies m w environment deps) = Inr instrs
                   \<and> set instrs \<subseteq> set script)))
   \<and> (\<not> environmentExists m w environment \<and> \<not> version_rejected (pythonVersion deps)
        \<and> platformCondaFormat w = Inr cur
        \<and> \<not> list_ex (rejected cur) (dependencies_get deps ''conda'')
        \<and> \<not> list_ex (rejected cur) (dependencies_get deps ''pip'')
        \<and> \<not> (\<exists>e \<in> set (dependencies_get deps ''pip''). kept cur e \<and> py_in ''::'' (specifier e)) \<longrightarrow>
        (\<exists>script. create_script m w environment deps aic aac = Some script
           \<and> executed (snd (create m w environment deps aic aac None eie)) = executed w @ [script]
           \<and> (fst (create m w environment deps aic aac None eie) = Inr True)
                = succeeds (spawn w script None)))"
proof (intro conjI impI allI)
  assume "environmentExists m w environment \<and> \<not> eie"
  then show "create m w environment deps aic aac None eie = (Inr True, w)"
    and "create_legacy m w environment deps aic aac None eie = (Inr True, w)"
    by (simp_all add: create_exists create_legacy_exists)
next
  assume "environmentExists m w environment \<and> eie"
  then show "create m w environment deps aic aac None eie
          = (Inl (Exception (''Error: the environment '' @ environment @ '' already exists.'')), w)"
    and "create_legacy m w environment deps aic aac None eie
          = (Inl (Exception (''Error: the environment '' @ environment @ '' already exists.'')), w)"
    by (simp_all add: create_exists create_legacy_exists)
next
  fix b w'
  assume absent: "\<not> environmentExists m w environment"
    and returns: "create m w environment deps aic aac None eie = (Inr b, w')"
  from absent returns have ok: "\<not> version_rejected (pythonVersion deps)"
    by (auto simp: create_version_rejected)
  from create_script_None [OF absent ok, of aic aac eie] returns
  obtain script where script: "create_script m w environment deps aic aac = Some script"
    by (cases "create_script m w environment deps aic aac") auto
  note facts = create_script_Some [OF absent ok script]
  from facts(5) [of eie] returns show "b"
    by simp
  then have "succeeds (spawn w script None)"
    using facts(2) [of eie] returns by simp
  moreover have "executed w' = executed w @ [script]"
    using facts(1) [of eie] returns by simp
  ultimately show "\<exists>script instrs. create_script m w environment deps aic aac = Some script
                   \<and> succeeds (spawn w script None)
                   \<and> executed w' = executed w @ [script]
                   \<and> create_instruction m w environment deps \<in> set script
                   \<and> fst (installDependencies m w environment deps) = Inr instrs
                   \<and> set instrs \<subseteq> set script"
    using script facts(3) facts(4) by blast
next
  assume h: "\<not> environmentExists m w environment \<and> \<not> version_rejected (pythonVersion deps)
        \<and> platformCondaFormat w = Inr cur
        \<and> \<not> list_ex (rejected cur) (dependencies_get deps ''conda'')
        \<and> \<not> list_ex (rejected cur) (dependencies_get deps ''pip'')
        \<and> \<not> (\<exists>e \<in> set (dependencies_get deps ''pip''). kept cur e \<and> py_in ''::'' (specifier e))"
  then obtain script where script: "create_script m w environment deps aic aac = Some script"
    using create_script_accepted [of w cur deps m environment aic aac] by blast
  from h have absent: "\<not> environmentExists m w environment"
    and ok: "\<not> version_rejected (pythonVersion deps)"
    by simp_all
  from script create_script_Some(1) [OF absent ok script, of eie]
    create_script_Some(2) [OF absent ok script, of eie]
  show "\<exists>script. create_script m w environment deps aic aac = Some script
           \<and> executed (snd (create m w environment deps aic aac None eie)) = executed w @ [script]
           \<and> (fst (create m w environment deps aic aac None eie) = Inr True)
                = succeeds (spawn w script None)"
    by blast
qed

theorem create_existing_or_new_witness:
  \<open>environmentExists manager_a existing_world ''env''
   \<and> create manager_a existing_world ''env'' deps_scenario Map.empty Map.empty None False
       = (Inr True, existing_world)
   \<and> create_legacy manager_a existing_world ''env'' deps_scenario Map.empty Map.empty None False
       = (Inr True, existing_world)
   \<and> create manager_a existing_world ''env'' deps_scenario Map.empty Map.empty None True
       = (Inl (Exception ''Error: the environment env already exists.''), existing_world)
   \<and> create_legacy manager_a existing_world ''env'' deps_scenario Map.empty Map.empty None True
       = (Inl (Exception ''Error: the environment env already exists.''), existing_world)
   \<and> \<not> environmentExists manager_a linux_world ''env''
   \<and> \<not> version_rejected (pythonVersion deps_scenario)
   \<and> platformCondaFormat linux_world = Inr ''linux-64''
   \<and> \<not> list_ex (rejected ''linux-64'') (dependencies_get deps_scenario ''conda'')
   \<and> dependencies_get deps_scenario ''pip'' = []
   \<and> create_script manager_a linux_world ''env'' deps_scenario Map.empty Map.empty
        = Some (hd (executed (snd (create manager_a linux_world ''env'' deps_scenario Map.empty Map.empty None False))))
   \<and> succeeds (spawn linux_world
        (hd (executed (snd (create manager_a linux_world ''env'' deps_scenario Map.empty Map.empty None False)))) None)
   \<and> fst (create manager_a linux_world ''env'' deps_scenario Map.empty Map.empty None False) = Inr True
   \<and> length (executed (snd (create manager_a linux_world ''env'' deps_scenario Map.empty Map.empty None False))) = 1
   \<and> ''micromamba --rc-file "/opt/micromamba/.mambarc" create -n env python=3.10.4 -y''
        \<in> set (hd (executed (snd (create manager_a linux_world ''env'' deps_scenario Map.empty Map.empty None False))))
   \<and> ''micromamba --rc-file "/opt/micromamba/.mambarc" install "pkgA==1.0" -y''
        \<in> set (hd (executed (snd (create manager_a linux_world ''env'' deps_scenario Map.empty Map.empty None False))))\<close>
  using create_existing_or_new
          [of manager_a existing_world "''env''" False deps_scenario Map.empty Map.empty "''linux-64''"]
        create_existing_or_new
          [of manager_a existing_world "''env''" True deps_scenario Map.empty Map.empty "''linux-64''"]
        create_existing_or_new
          [of manager_a linux_world "''env''" False deps_scenario Map.empty Map.empty "''linux-64''"]
  by (simp add: create_defs create_script_def create_instruction_def succeeds_def create_legacy_def
        format_defs string_defs join.simps deps_scenario_def existing_world_def concrete_defs)

text \<open>
  The claim has \<^verbatim>\<open>create\<close> run the commands and return \<open>True\<close> whenever the
  environment does not exist. For the Python version \<^verbatim>\<open>2.7\<close> the current copy raises
  and runs nothing. The older copy raises \<^verbatim>\<open>KeyError\<close> and runs nothing for the
  specification \<^verbatim>\<open>{'conda': ['pkgA==1.0']}\<close>, which has no \<^verbatim>\<open>pip\<close> key: its
  \<^verbatim>\<open>installDependencies\<close> reads \<^verbatim>\<open>dependencies['pip']\<close> first.
\<close>

theorem create_absent_may_raise:
  "\<not> environmentExists manager_a linux_world ''env''
   \<and> create manager_a linux_world ''env'' (deps_python ''2.7'') Map.empty Map.empty None False
       = (Inl (Exception ''Python version must be greater than 3.8''), linux_world)
   \<and> create_legacy manager_a linux_world ''env'' deps_scenario Map.empty Map.empty None False
       = (Inl (KeyError ''pip''), linux_world)
   \<and> executed linux_world = []"
  by (simp add: create_defs deps_python_def concrete_defs create_legacy_def activateConda_legacy_def
        installCondaIfNecessary_legacy_def shellHook_legacy_def installDependencies_legacy_def
        deps_scenario_def)

section \<open>dependenciesAreInstalled without an environment name\<close>

lemma formatLoop_lenient:
  "platformCondaFormat w = Inr cur \<Longrightarrow> \<exists>r. formatLoop w False es fd fnd = Inr r"
proof (induction es arbitrary: fd fnd)
  case Nil
  then show ?case by simp
next
  case (Cons e es)
  then show ?case by (cases e) auto
qed



lemma formatDependencies_none:
  "dependencies_get deps pm = [] \<Longrightarrow> formatDependencies w pm deps r = Inr ([], [], False)"
  by (simp add: formatDependencies_def)

lemma dependenciesAreInstalled_None_pip:
  assumes "dependencies_get deps ''conda'' = []"
  shows "dependenciesAreInstalled m w None deps =
           (case formatDependencies w ''pip'' deps False of
              Inl e \<Rightarrow> (Inl e, w)
            | Inr (pipDependencies, pipDependenciesNoDeps, hasPipDependencies) \<Rightarrow>
                if \<not> hasPipDependencies then (Inr True, w)
                else (Inr (list_all (\<lambda>d. d \<in> set (map (\<lambda>(n, v). n @ ''=='' @ v) (distributions w)))
                             (pipDependencies @ pipDependenciesNoDeps)), w))"
  using assms
  by (cases "formatDependencies w ''pip'' deps False")
     (auto simp: dependenciesAreInstalled_def formatDependencies_none cached_def lookup_def)





subsection \<open>The lookup of quoted specifiers\<close>

text \<open>
  The method is commented \<^verbatim>\<open>Checks if specified dependencies are installed in an
  environment\<close>. \<^verbatim>\<open>_formatDependencies\<close> wraps every specifier in double quotes, and
  the method looks the wrapped specifier up in the list of \<^verbatim>\<open>name==version\<close> strings.
  So for a non-empty pip list the answer is \<open>False\<close> whatever is installed, unless the
  name of a distribution starts with a double quote. The statement above is about the
  rest of the method and leaves this answer out.
\<close>

lemma quoted_not_installed:
  "\<forall>(n, v) \<in> set ds. \<not> prefix [dq] n \<Longrightarrow>
     quoted d \<notin> set (map (\<lambda>(n, v). n @ ''=='' @ v) ds)"
  by (fastforce simp: quoted_def prefix_def Cons_eq_append_conv dq_def)


lemma formatLoop_lenient_count:
  "formatLoop w False es fd fnd = Inr (a, b) \<Longrightarrow>
     length a + length b = length fd + length fnd + length es"
proof (induction es arbitrary: fd fnd)
  case Nil
  then show ?case by simp
next
  case (Cons e es)
  then show ?case
    by (cases e) (fastforce split: sum.splits if_splits)+
qed

lemma dependenciesAreInstalled_quoted_lookup:
  assumes "dependencies_get deps ''conda'' = []" and "dependencies_get deps ''pip'' \<noteq> []"
    and "platformCondaFormat w = Inr cur"
    and "\<forall>(n, v) \<in> set (distributions w). \<not> prefix [dq] n"
  shows "fst (dependenciesAreInstalled m w None deps) = Inr False"
proof -
  from formatLoop_lenient [OF assms(3), of "dependencies_get deps ''pip''" "[]" "[]"]
  obtain a b where l: "formatLoop w False (dependencies_get deps ''pip'') [] [] = Inr (a, b)"
    by (cases "formatLoop w False (dependencies_get deps ''pip'') [] []") auto
  from formatLoop_lenient_count [OF l] assms(2) have n: "a @ b \<noteq> []"
    by auto
  have f: "formatDependencies w ''pip'' deps False = Inr (map quoted a, map quoted b, True)"
    using l n by (auto simp: formatDependencies_def)
  from n obtain d where "d \<in> set (map quoted a @ map quoted b)" "\<exists>s. d = quoted s"
    by (cases a; cases b) auto
  with quoted_not_installed [OF assms(4)]
  have "\<not> list_all (\<lambda>d. d \<in> set (map (\<lambda>(n, v). n @ ''=='' @ v) (distributions w)))
            (map quoted a @ map quoted b)"
    by (auto simp: list_all_iff)
  then show ?thesis
    by (simp add: dependenciesAreInstalled_None_pip [OF assms(1)] f)
qed

section \<open>importModule\<close>

lemma importModule0_cached:
  "module_cache self w (path_stem p) = Some md \<Longrightarrow> importModule0 self w p = (Inr md, w)"
  by (simp add: importModule0_def)

lemma importModule0_caches:
  "importModule0 self w p = (Inr md, w1) \<Longrightarrow> module_cache self' w1 (path_stem p) = Some md"
  by (auto simp: importModule0_def module_cache_def Let_def split: option.splits)

text \<open>
  Claim C7, as the code has it. The cache is one dictionary of the class \<^verbatim>\<open>Environment\<close>,
  keyed by the stem of the module path. After a successful \<^verbatim>\<open>importModule\<close>, a call
  for any path with the same stem, on any environment object of any manager, imports
  nothing, changes nothing and yields a proxy with the same function names. A call whose
  stem is not cached calls \<^verbatim>\<open>import_module\<close> once; a call whose stem is cached leaves
  the state unchanged.
\<close>

theorem importModule_cached_by_stem:
  "(importModule self w p = (Inr fm, w1) \<and> path_stem p' = path_stem p \<longrightarrow>
      (\<exists>fm'. importModule self' w1 p' = (Inr fm', w1) \<and> map fst fm' = map fst fm))
   \<and> (module_cache self w (path_stem p) = None \<longrightarrow>
        imported (snd (importModule self w p)) = imported w @ [path_stem p])
   \<and> (module_cache self w (path_stem p) \<noteq> None \<longrightarrow> snd (importModule self w p) = w)"
proof (intro conjI impI)
  assume h: "importModule self w p = (Inr fm, w1) \<and> path_stem p' = path_stem p"
  then obtain md where md: "importModule0 self w p = (Inr md, w1)"
    and fm: "fm = map (\<lambda>f. (f, p, f)) (listFunctions md)"
    by (auto simp: importModule_def split: prod.splits sum.splits)
  from importModule0_caches [OF md, of self'] h
  have "importModule0 self' w1 p' = (Inr md, w1)"
    by (simp add: importModule0_cached)
  then show "\<exists>fm'. importModule self' w1 p' = (Inr fm', w1) \<and> map fst fm' = map fst fm"
    by (simp add: importModule_def fm comp_def)
next
  assume "module_cache self w (path_stem p) = None"
  then show "imported (snd (importModule self w p)) = imported w @ [path_stem p]"
    by (simp add: importModule_def importModule0_def Let_def split: option.splits)
next
  assume "module_cache self w (path_stem p) \<noteq> None"
  then show "snd (importModule self w p) = w"
    by (auto simp: importModule_def importModule0_def)
qed

lemmas import_defs =
  importModule_def importModule0_def module_cache_def listFunctions_def isModFunction_def
  path_stem_def path_name_def path_parts_def path_parent_def path_root_def Let_def
  module_world_def module_a_def module_b_def env_a_def env_b_def

lemma first_import:
  "importModule env_a module_world ''a/util.py'' = (Inr [(''f_a'', ''a/util.py'', ''f_a'')], after_import)"
  by (simp add: after_import_def import_defs concrete_defs)

lemma first_import_log:
  "imported after_import = [''util'']"
  by (simp add: after_import_def import_defs concrete_defs)

theorem importModule_cached_by_stem_witness:
  "importModule env_a module_world ''a/util.py'' = (Inr [(''f_a'', ''a/util.py'', ''f_a'')], after_import)
   \<and> path_stem ''a/util.py'' = ''util''
   \<and> map fst (projr (fst (importModule env_a after_import ''a/util.py''))) = [''f_a'']
   \<and> snd (importModule env_a after_import ''a/util.py'') = after_import
   \<and> imported after_import = [''util'']
   \<and> fst (importModule env_a module_world ''c/other.py'') = Inl (ImportError ''other'')
   \<and> imported (snd (importModule env_a module_world ''c/other.py'')) = [''other'']"
proof -
  from importModule_cached_by_stem
         [of env_a module_world "''a/util.py''" "[(''f_a'', ''a/util.py'', ''f_a'')]" after_import
             "''a/util.py''" env_a]
       first_import
  obtain fm' where again: "importModule env_a after_import ''a/util.py'' = (Inr fm', after_import)"
    and names: "map fst fm' = [''f_a'']"
    by auto
  have stem: "path_stem ''a/util.py'' = ''util''"
    by (simp add: import_defs)
  have other: "fst (importModule env_a module_world ''c/other.py'') = Inl (ImportError ''other'')"
      "imported (snd (importModule env_a module_world ''c/other.py'')) = [''other'']"
    by (simp_all add: import_defs concrete_defs)
  from again names stem other first_import first_import_log show ?thesis
    by simp
qed

text \<open>
  The claim has two distinct module paths each import their own module, and the caches of
  distinct managers independent. \<^verbatim>\<open>a/util.py\<close> and \<^verbatim>\<open>b/util.py\<close> are two modules
  with different functions. After an environment of the first manager has imported the
  first, an environment of the second manager that asks for the second gets the functions
  of the first, and nothing is imported.
\<close>

theorem importModule_other_path_same_stem:
  "''a/util.py'' \<noteq> ''b/util.py''
   \<and> fst (importModule env_a module_world ''a/util.py'') = Inr [(''f_a'', ''a/util.py'', ''f_a'')]
   \<and> fst (importModule env_b module_world ''b/util.py'') = Inr [(''f_b'', ''b/util.py'', ''f_b'')]
   \<and> importModule env_b after_import ''b/util.py'' = (Inr [(''f_a'', ''b/util.py'', ''f_a'')], after_import)
   \<and> imported after_import = [''util'']
   \<and> environmentManager env_a \<noteq> environmentManager env_b"
proof -
  have cache: "modules after_import ''util'' = Some module_a"
    by (simp add: after_import_def import_defs concrete_defs)
  have "importModule env_b after_import ''b/util.py'' = (Inr [(''f_a'', ''b/util.py'', ''f_a'')], after_import)"
    by (simp add: importModule_def importModule0_def module_cache_def cache
          path_stem_def path_name_def path_parts_def listFunctions_def isModFunction_def module_a_def)
  moreover have "fst (importModule env_a module_world ''a/util.py'') = Inr [(''f_a'', ''a/util.py'', ''f_a'')]"
    by (simp add: first_import)
  moreover have "fst (importModule env_b module_world ''b/util.py'') = Inr [(''f_b'', ''b/util.py'', ''f_b'')]"
    by (simp add: import_defs concrete_defs)
  moreover have "environmentManager env_a \<noteq> environmentManager env_b"
    by (simp add: env_a_def env_b_def manager_a_def manager_b_def)
  ultimately show ?thesis
    using first_import_log by simp
qed

end
